theory Spec2Isabelle
  imports Main "HOL-Library.Word" "HOL-Library.AList"
begin

section \<open>Python values, the object heap and the library interface\<close>

text \<open>
  A Python \<open>str\<close> is a sequence of Unicode code points, \<open>bytes\<close> a sequence of octets.
  Literals of the source are written with \<open>u\<close>; the pictographs of the tree labels are
  given by their code points.
\<close>

type_synonym ustr = "nat list"
type_synonym byte = "8 word"
type_synonym bytes = "byte list"
type_synonym addr = nat

definition u :: "string \<Rightarrow> ustr" where
  "u s = map of_char s"

text \<open>
  Exception classes that the source names in a handler, or whose class name it prints.
  \<open>exn_isa e c\<close> is \<open>isinstance(e, c)\<close>; every class is an \<open>Exception\<close>.
\<close>

datatype exn =
    PicklingError | UnpicklingError | TypeError | ValueError | AttributeError
  | UnicodeEncodeError | UnicodeDecodeError | JSONDecodeError | EOFError
  | ImportError | ModuleNotFoundError | MemoryError | RecursionError | OSError
  | KeyError | OtherError ustr

fun exn_name :: "exn \<Rightarrow> ustr" where
  "exn_name PicklingError = u ''PicklingError''"
| "exn_name UnpicklingError = u ''UnpicklingError''"
| "exn_name TypeError = u ''TypeError''"
| "exn_name ValueError = u ''ValueError''"
| "exn_name AttributeError = u ''AttributeError''"
| "exn_name UnicodeEncodeError = u ''UnicodeEncodeError''"
| "exn_name UnicodeDecodeError = u ''UnicodeDecodeError''"
| "exn_name JSONDecodeError = u ''JSONDecodeError''"
| "exn_name EOFError = u ''EOFError''"
| "exn_name ImportError = u ''ImportError''"
| "exn_name ModuleNotFoundError = u ''ModuleNotFoundError''"
| "exn_name MemoryError = u ''MemoryError''"
| "exn_name RecursionError = u ''RecursionError''"
| "exn_name OSError = u ''OSError''"
| "exn_name KeyError = u ''KeyError''"
| "exn_name (OtherError n) = n"

definition exn_isa :: "exn \<Rightarrow> exn \<Rightarrow> bool" where
  "exn_isa e c \<longleftrightarrow> e = c
     \<or> (c = ValueError \<and> e \<in> {UnicodeEncodeError, UnicodeDecodeError, JSONDecodeError})
     \<or> (c = ImportError \<and> e = ModuleNotFoundError)"

text \<open>
  Immutable scalars are values; every container and every other object lives in the heap
  and is reached through a reference, so that an object can contain itself. A float is
  its IEEE-754 bit pattern: the source only prints and classifies floats.
\<close>

datatype pyval =
    PyNone | PyBool bool | PyInt int | PyFloat "64 word" | PyStr ustr | PyBytes bytes
  | PyRef addr

text \<open>
  \<open>members\<close> is \<open>dir(obj)\<close> paired with what \<open>getattr(obj, name)\<close> does for each name
  (a property may raise); \<open>inst_vars\<close> is \<open>vars(obj)\<close>. The two widget flags are the
  \<open>isinstance\<close> tests of the save path against the Tk classes.
\<close>

record inst =
  cls_name :: ustr
  members :: "exn + (ustr \<times> (exn + pyval)) list"
  inst_vars :: "(ustr \<times> pyval) list"
  inst_callable :: bool
  inst_has_dict :: bool
  inst_truthy :: bool
  isa_widget :: bool
  isa_tk_window :: bool

datatype pyobj =
    ODict "(pyval \<times> pyval) list"
  | OList "pyval list"
  | OTuple "pyval list"
  | OInst inst

type_synonym heap = "addr \<Rightarrow> pyobj"

text \<open>
  The Python built-ins and standard-library calls the source makes. They are not code of
  this repository and are taken as parameters; decoders allocate, so they return the new heap.
\<close>

record pylib =
  py_str :: "heap \<Rightarrow> pyval \<Rightarrow> exn + ustr"
  py_repr :: "heap \<Rightarrow> pyval \<Rightarrow> exn + ustr"
  builtin_members :: "pyval \<Rightarrow> exn + (ustr \<times> (exn + pyval)) list"
  utf8_encode :: "ustr \<Rightarrow> exn + bytes"
  utf8_decode :: "bytes \<Rightarrow> exn + ustr"
  highest_protocol :: nat
  pickle_dumps :: "heap \<Rightarrow> pyval \<Rightarrow> nat option \<Rightarrow> exn + bytes"
  pickle_loads :: "heap \<Rightarrow> bytes \<Rightarrow> exn + (pyval \<times> heap)"
  json_dumps :: "heap \<Rightarrow> pyval \<Rightarrow> nat \<Rightarrow> exn + ustr"
  json_loads :: "heap \<Rightarrow> ustr \<Rightarrow> exn + (pyval \<times> heap)"

subsection \<open>Classification of values\<close>

fun type_name :: "heap \<Rightarrow> pyval \<Rightarrow> ustr" where
  "type_name h PyNone = u ''NoneType''"
| "type_name h (PyBool b) = u ''bool''"
| "type_name h (PyInt i) = u ''int''"
| "type_name h (PyFloat f) = u ''float''"
| "type_name h (PyStr s) = u ''str''"
| "type_name h (PyBytes b) = u ''bytes''"
| "type_name h (PyRef a) =
     (case h a of ODict kvs \<Rightarrow> u ''dict'' | OList xs \<Rightarrow> u ''list''
      | OTuple xs \<Rightarrow> u ''tuple'' | OInst i \<Rightarrow> cls_name i)"

text \<open>\<open>isinstance(v, (str, int, float, bool))\<close>; a \<open>bool\<close> is an \<open>int\<close>.\<close>

fun is_simple :: "pyval \<Rightarrow> bool" where
  "is_simple (PyStr s) = True"
| "is_simple (PyInt i) = True"
| "is_simple (PyFloat f) = True"
| "is_simple (PyBool b) = True"
| "is_simple v = False"

text \<open>\<open>isinstance(v, (str, int, float, bool, type(None)))\<close>.\<close>

definition is_simple_or_none :: "pyval \<Rightarrow> bool" where
  "is_simple_or_none v \<longleftrightarrow> is_simple v \<or> v = PyNone"

fun is_dict :: "heap \<Rightarrow> pyval \<Rightarrow> bool" where
  "is_dict h (PyRef a) = (case h a of ODict kvs \<Rightarrow> True | _ \<Rightarrow> False)"
| "is_dict h v = False"

fun is_list_or_tuple :: "heap \<Rightarrow> pyval \<Rightarrow> bool" where
  "is_list_or_tuple h (PyRef a) =
     (case h a of OList xs \<Rightarrow> True | OTuple xs \<Rightarrow> True | _ \<Rightarrow> False)"
| "is_list_or_tuple h v = False"

fun callable :: "heap \<Rightarrow> pyval \<Rightarrow> bool" where
  "callable h (PyRef a) = (case h a of OInst i \<Rightarrow> inst_callable i | _ \<Rightarrow> False)"
| "callable h v = False"

fun has_dict :: "heap \<Rightarrow> pyval \<Rightarrow> bool" where
  "has_dict h (PyRef a) = (case h a of OInst i \<Rightarrow> inst_has_dict i | _ \<Rightarrow> False)"
| "has_dict h v = False"

text \<open>\<open>dir(obj)\<close> with \<open>getattr\<close> for each name, for an object that is no dict, list or tuple.\<close>

fun members_of :: "pylib \<Rightarrow> heap \<Rightarrow> pyval \<Rightarrow> exn + (ustr \<times> (exn + pyval)) list" where
  "members_of L h (PyRef a) =
     (case h a of OInst i \<Rightarrow> members i | _ \<Rightarrow> builtin_members L (PyRef a))"
| "members_of L h v = builtin_members L v"

section \<open>The graph walker\<close>

text \<open>
  One item of the object tree: its text, its values \<open>(type, path)\<close>, and the items
  inserted under it.
\<close>

datatype node = Node (node_text: ustr) (node_type: ustr) (node_path: ustr) (children: "node list")

text \<open>The value preview \<open>f" = {repr(value)[:50]}"\<close>.\<close>

definition preview :: "ustr \<Rightarrow> ustr" where
  "preview r = u '' = '' @ take 50 r"

definition startswith_underscore :: "ustr \<Rightarrow> bool" where
  "startswith_underscore s \<longleftrightarrow> (case s of [] \<Rightarrow> False | c # cs \<Rightarrow> c = 95)"

text \<open>
  The three loops of \<open>_enumerate_object\<close>. Each returns the items it inserts under the
  parent, in order; \<open>rec v path\<close> is the recursive call at \<open>depth + 1\<close>. In the dict and
  sequence loops an exception (from \<open>str(key)\<close> or \<open>repr(key)\<close>) leaves the loop through
  the outer \<open>except\<close>, keeping what was inserted; a failing preview is passed over.
\<close>

fun dict_loop ::
  "pylib \<Rightarrow> heap \<Rightarrow> (pyval \<Rightarrow> ustr \<Rightarrow> node list) \<Rightarrow> ustr \<Rightarrow> (pyval \<times> pyval) list \<Rightarrow> node list"
where
  "dict_loop L h rec obj_name [] = []"
| "dict_loop L h rec obj_name ((key, val) # rest) =
     (case py_str L h key of
        Inl e \<Rightarrow> []
      | Inr key_str \<Rightarrow>
          (let val_type = type_name h val;
               node_text = [0x1F511] @ u '' '' @ key_str @ u '': '' @ val_type;
               node_text' = (if is_simple val
                             then (case py_repr L h val of
                                     Inl e \<Rightarrow> node_text
                                   | Inr r \<Rightarrow> node_text @ preview r)
                             else node_text)
           in case py_repr L h key of
                Inl e \<Rightarrow> []
              | Inr key_repr \<Rightarrow>
                  (let child_path = obj_name @ u ''['' @ key_repr @ u '']''
                   in Node node_text' val_type child_path
                        (if \<not> is_simple_or_none val then rec val child_path else [])
                      # dict_loop L h rec obj_name rest)))"

text \<open>\<open>str(idx)\<close> for the index of \<open>enumerate\<close>: decimal digits.\<close>

fun digits :: "nat \<Rightarrow> ustr" where
  "digits n = (if n < 10 then [48 + n] else digits (n div 10) @ [48 + n mod 10])"

declare digits.simps [simp del]

fun seq_loop ::
  "pylib \<Rightarrow> heap \<Rightarrow> (pyval \<Rightarrow> ustr \<Rightarrow> node list) \<Rightarrow> ustr \<Rightarrow> nat \<Rightarrow> pyval list \<Rightarrow> node list"
where
  "seq_loop L h rec obj_name idx [] = []"
| "seq_loop L h rec obj_name idx (val # rest) =
     (let val_type = type_name h val;
          node_text = u ''['' @ digits idx @ u '']: '' @ val_type;
          node_text' = (if is_simple val
                        then (case py_repr L h val of
                                Inl e \<Rightarrow> node_text
                              | Inr r \<Rightarrow> node_text @ preview r)
                        else node_text);
          child_path = obj_name @ u ''['' @ digits idx @ u '']''
      in Node node_text' val_type child_path
           (if \<not> is_simple_or_none val then rec val child_path else [])
         # seq_loop L h rec obj_name (idx + 1) rest)"

definition attr_prefix :: "heap \<Rightarrow> pyval \<Rightarrow> ustr" where
  "attr_prefix h v =
     (if callable h v then [0x2699, 0xFE0F]
      else if is_simple v then [0x1F4CA]
      else if is_dict h v then [0x1F4C1]
      else if is_list_or_tuple h v then [0x1F4CB]
      else [0x25CF])"

text \<open>
  The attribute loop. Each attribute has its own \<open>try\<close>: a failing \<open>getattr\<close> or
  \<open>repr\<close> omits that one entry and the loop goes on.
\<close>

fun attr_loop ::
  "pylib \<Rightarrow> heap \<Rightarrow> (pyval \<Rightarrow> ustr \<Rightarrow> node list) \<Rightarrow> ustr \<Rightarrow> nat
     \<Rightarrow> (ustr \<times> (exn + pyval)) list \<Rightarrow> node list"
where
  "attr_loop L h rec obj_name depth [] = []"
| "attr_loop L h rec obj_name depth ((attr_name, got) # rest) =
     (if depth > 0 \<and> startswith_underscore attr_name
      then attr_loop L h rec obj_name depth rest
      else case got of
        Inl e \<Rightarrow> attr_loop L h rec obj_name depth rest
      | Inr attr_value \<Rightarrow>
          (let attr_type = type_name h attr_value;
               node_text = attr_prefix h attr_value @ u '' '' @ attr_name @ u '': '' @ attr_type;
               child_path = obj_name @ u ''.'' @ attr_name
           in case (if is_simple attr_value
                    then (case py_repr L h attr_value of
                            Inl e \<Rightarrow> Inl e
                          | Inr r \<Rightarrow> Inr (node_text @ preview r))
                    else Inr node_text) of
                Inl e \<Rightarrow> attr_loop L h rec obj_name depth rest
              | Inr node_text' \<Rightarrow>
                  Node node_text' attr_type child_path
                    (if \<not> is_simple_or_none attr_value \<and> \<not> callable h attr_value
                        \<and> (is_dict h attr_value \<or> is_list_or_tuple h attr_value
                             \<or> has_dict h attr_value)
                     then rec attr_value child_path else [])
                  # attr_loop L h rec obj_name depth rest))"

text \<open>
  \<open>_enumerate_object(obj, parent_id, obj_name, depth, max_depth)\<close>: the items inserted
  under \<open>parent_id\<close>. The recursion is on \<open>depth\<close> alone; the heap may be cyclic.
\<close>

function enumerate_object ::
  "pylib \<Rightarrow> heap \<Rightarrow> pyval \<Rightarrow> ustr \<Rightarrow> nat \<Rightarrow> nat \<Rightarrow> node list"
where
  "enumerate_object L h obj obj_name depth max_depth =
     (if depth \<ge> max_depth then []
      else
        let rec = (\<lambda>v p. enumerate_object L h v p (depth + 1) max_depth)
        in case obj of
             PyRef a \<Rightarrow>
               (case h a of
                  ODict kvs \<Rightarrow> dict_loop L h rec obj_name kvs
                | OList xs \<Rightarrow> seq_loop L h rec obj_name 0 xs
                | OTuple xs \<Rightarrow> seq_loop L h rec obj_name 0 xs
                | OInst i \<Rightarrow>
                    (case members_of L h obj of
                       Inl e \<Rightarrow> []
                     | Inr ms \<Rightarrow> attr_loop L h rec obj_name depth ms))
           | _ \<Rightarrow>
               (case members_of L h obj of
                  Inl e \<Rightarrow> []
                | Inr ms \<Rightarrow> attr_loop L h rec obj_name depth ms))"
  by pat_completeness auto
termination
  by (relation "measure (\<lambda>(L, h, obj, obj_name, depth, max_depth). max_depth - depth)") auto

declare enumerate_object.simps [simp del]

section \<open>The persistence codec\<close>

subsection \<open>Dialogs, the user and the file system\<close>

text \<open>
  A message box is recorded by its kind, its title and the values interpolated into its
  body (the fixed prose of the body is left out). The answers of the user to the file
  chooser, the name prompt and the yes/no questions are inputs.
\<close>

datatype box = showerror | showinfo | showwarning | askyesno

datatype field = Txt ustr | Num nat | Exc exn

datatype dialog = Dialog box ustr "field list"

record user =
  chosen_file :: ustr
  continue_with_widgets :: bool
  continue_large :: bool
  object_name :: "ustr option"
  overwrite :: bool

text \<open>
  What happens when a path is opened with mode \<open>'wb'\<close> and written to: the open is
  refused and nothing changes; or the open empties the file and the write breaks off with
  an \<open>IOError\<close>, at most the first \<open>n\<close> bytes having reached the disk; or all is written.
\<close>

datatype write_outcome = Refused | Breaks nat | Completes

record filesys =
  files :: "ustr \<rightharpoonup> bytes"
  readable :: "ustr \<Rightarrow> bool"
  on_write :: "ustr \<Rightarrow> write_outcome"

definition writable :: "filesys \<Rightarrow> ustr \<Rightarrow> bool" where
  "writable d filename \<longleftrightarrow> on_write d filename = Completes"

text \<open>A JSON document as \<open>json.load\<close> returns it; an object keeps its entries in order.\<close>

datatype json =
    JNull | JBool bool | JInt int | JFloat "64 word" | JStr ustr
  | JArr "json list" | JObj "(ustr \<times> json) list"

text \<open>The fields of \<open>ObjectBrowser\<close> the codec reads and writes, with the heap and the disk.\<close>

record browser =
  current_object :: pyval
  current_object_path :: ustr
  loaded_objects :: "(ustr \<times> pyval) list"
  settings :: json
  heap :: heap
  fs :: filesys

text \<open>Truth value of an object, as \<open>if not self.current_object\<close> tests it.\<close>

fun truthy :: "heap \<Rightarrow> pyval \<Rightarrow> bool" where
  "truthy h PyNone = False"
| "truthy h (PyBool b) = b"
| "truthy h (PyInt i) = (i \<noteq> 0)"
| "truthy h (PyFloat f) = (take_bit 63 f \<noteq> 0)"
| "truthy h (PyStr s) = (s \<noteq> [])"
| "truthy h (PyBytes b) = (b \<noteq> [])"
| "truthy h (PyRef a) =
     (case h a of ODict kvs \<Rightarrow> kvs \<noteq> [] | OList xs \<Rightarrow> xs \<noteq> []
      | OTuple xs \<Rightarrow> xs \<noteq> [] | OInst i \<Rightarrow> inst_truthy i)"

text \<open>\<open>isinstance(v, (tk.Widget, ttk.Widget))\<close> and the longer tuple \<open>non_picklable_types\<close>.\<close>

fun is_widget :: "heap \<Rightarrow> pyval \<Rightarrow> bool" where
  "is_widget h (PyRef a) = (case h a of OInst i \<Rightarrow> isa_widget i | _ \<Rightarrow> False)"
| "is_widget h v = False"

fun is_non_picklable_type :: "heap \<Rightarrow> pyval \<Rightarrow> bool" where
  "is_non_picklable_type h (PyRef a) =
     (case h a of OInst i \<Rightarrow> isa_widget i \<or> isa_tk_window i | _ \<Rightarrow> False)"
| "is_non_picklable_type h v = False"

fun vars_values :: "heap \<Rightarrow> pyval \<Rightarrow> pyval list" where
  "vars_values h (PyRef a) = (case h a of OInst i \<Rightarrow> map snd (inst_vars i) | _ \<Rightarrow> [])"
| "vars_values h v = []"

text \<open>
  \<open>with open(filename, 'wb') as f: f.write(data)\<close>: the \<open>IOError\<close> raised, if any, and the
  disk afterwards. A write that breaks off leaves the truncated file behind.
\<close>

definition write_file :: "filesys \<Rightarrow> ustr \<Rightarrow> bytes \<Rightarrow> exn option \<times> filesys" where
  "write_file d filename data =
     (case on_write d filename of
        Refused \<Rightarrow> (Some OSError, d)
      | Breaks n \<Rightarrow> (Some OSError, d\<lparr>files := (files d)(filename \<mapsto> take n data)\<rparr>)
      | Completes \<Rightarrow> (None, d\<lparr>files := (files d)(filename \<mapsto> data)\<rparr>))"

text \<open>
  \<open>name = self.ask_object_name(default_name)\<close> followed by \<open>if not name\<close>: the dialog
  gives \<open>None\<close> when cancelled, and an empty name counts as none.
\<close>

definition entered_name :: "ustr option \<Rightarrow> ustr option" where
  "entered_name n = (case n of None \<Rightarrow> None | Some s \<Rightarrow> if s = [] then None else Some s)"

definition large_file_limit :: nat where
  "large_file_limit = 100 * 1024 * 1024"

subsection \<open>Native format: \<open>save_object_python\<close> and \<open>load_object_python\<close>\<close>

text \<open>
  The handlers of \<open>save_object_python\<close> for an exception of \<open>pickle.dumps\<close>: the inner
  \<open>except\<close> first, then the two outer ones.
\<close>

definition save_python_handler :: "exn \<Rightarrow> dialog" where
  "save_python_handler e =
     (if exn_isa e PicklingError \<or> exn_isa e TypeError \<or> exn_isa e AttributeError
      then Dialog showerror (u ''Object Cannot Be Pickled'') [Exc e]
      else if exn_isa e OSError
      then Dialog showerror (u ''File Write Error'') [Exc e]
      else Dialog showerror (u ''Unexpected Error'') [Exc e])"

definition save_object_python :: "pylib \<Rightarrow> user \<Rightarrow> browser \<Rightarrow> dialog list \<times> browser" where
  "save_object_python L U st =
     (let obj = current_object st; h = heap st in
      if \<not> truthy h obj then ([Dialog showwarning (u ''No Object Selected'') []], st)
      else
        let obj_type = type_name h obj in
        if is_non_picklable_type h obj
        then ([Dialog showerror (u ''Cannot Pickle GUI Widget'')
                 [Txt (current_object_path st), Txt obj_type]], st)
        else
          let asked = (if has_dict h obj \<and> (\<exists>v \<in> set (vars_values h obj). is_widget h v)
                       then [Dialog askyesno (u ''Warning: Contains Widgets'') [Txt obj_type]]
                       else [])
          in
          if asked \<noteq> [] \<and> \<not> continue_with_widgets U then (asked, st)
          else
            let filename = chosen_file U in
            if filename = [] then (asked, st)
            else
              case pickle_dumps L h obj (Some (highest_protocol L)) of
                Inl e \<Rightarrow> (asked @ [save_python_handler e], st)
              | Inr test_data \<Rightarrow>
                  (case write_file (fs st) filename test_data of
                     (Some e, d) \<Rightarrow>
                       (asked @ [Dialog showerror (u ''File Write Error'') [Exc e]],
                        st\<lparr>fs := d\<rparr>)
                   | (None, d) \<Rightarrow>
                       (asked @ [Dialog showinfo ([0x2713] @ u '' Object Saved Successfully'')
                                   [Txt (current_object_path st), Txt obj_type,
                                    Num (length test_data), Num (highest_protocol L),
                                    Txt filename]],
                        st\<lparr>fs := d\<rparr>)))"

definition load_python_handler :: "exn \<Rightarrow> nat \<Rightarrow> dialog" where
  "load_python_handler e file_size =
     (if exn_isa e UnpicklingError then Dialog showerror (u ''Invalid Pickle File'') [Exc e]
      else if exn_isa e EOFError \<or> exn_isa e ValueError
      then Dialog showerror (u ''Corrupted File'') [Exc e]
      else if exn_isa e ImportError \<or> exn_isa e ModuleNotFoundError
      then Dialog showerror (u ''Missing Module'') [Exc e]
      else if exn_isa e AttributeError
      then Dialog showerror (u ''Incompatible Version'') [Exc e]
      else if exn_isa e MemoryError
      then Dialog showerror (u ''Out of Memory'') [Num file_size]
      else Dialog showerror (u ''Load Failed'') [Exc e])"

definition load_object_python :: "pylib \<Rightarrow> user \<Rightarrow> browser \<Rightarrow> dialog list \<times> browser" where
  "load_object_python L U st =
     (let filename = chosen_file U in
      if filename = [] then ([], st)
      else case files (fs st) filename of
        None \<Rightarrow> ([Dialog showerror (u ''File Not Found'') [Txt filename]], st)
      | Some data \<Rightarrow>
          if \<not> readable (fs st) filename
          then ([Dialog showerror (u ''Permission Denied'') [Txt filename]], st)
          else
            let file_size = length data;
                asked = (if file_size > large_file_limit
                         then [Dialog askyesno (u ''Large File Warning'') [Num file_size]]
                         else [])
            in
            if asked \<noteq> [] \<and> \<not> continue_large U then (asked, st)
            else
              case pickle_loads L (heap st) data of
                Inl e \<Rightarrow> (asked @ [load_python_handler e file_size], st)
              | Inr (loaded_obj, h') \<Rightarrow>
                  let obj_type = type_name h' loaded_obj in
                  (case entered_name (object_name U) of
                     None \<Rightarrow> (asked @ [Dialog showinfo (u ''Load Cancelled'') []], st)
                   | Some name \<Rightarrow>
                       let dup = (if name \<in> fst ` set (loaded_objects st)
                                  then [Dialog askyesno (u ''Name Already Exists'') [Txt name]]
                                  else [])
                       in
                       if dup \<noteq> [] \<and> \<not> overwrite U then (asked @ dup, st)
                       else
                         (asked @ dup @
                            [Dialog showinfo ([0x2713] @ u '' Object Loaded'')
                               [Txt name, Txt obj_type, Num file_size]],
                          st\<lparr>loaded_objects :=
                                AList.update name loaded_obj (loaded_objects st),
                             heap := h'\<rparr>)))"

subsection \<open>Portable binary format: \<open>save_object_binary\<close> and \<open>load_object_binary\<close>\<close>

text \<open>
  The two outer handlers of \<open>save_object_binary\<close>, reached by any exception that no inner
  handler takes.
\<close>

definition save_binary_handler :: "exn \<Rightarrow> dialog" where
  "save_binary_handler e =
     (if exn_isa e OSError then Dialog showerror (u ''File Write Error'') [Exc e]
      else Dialog showerror (u ''Save Failed'') [Exc e])"

text \<open>\<open>isinstance(obj, (int, float))\<close>; a \<open>bool\<close> is an \<open>int\<close>.\<close>

fun is_number :: "pyval \<Rightarrow> bool" where
  "is_number (PyInt i) = True"
| "is_number (PyFloat f) = True"
| "is_number (PyBool b) = True"
| "is_number v = False"

text \<open>
  The conversion chain of \<open>save_object_binary\<close> (the \<open>if\<close>/\<open>elif\<close> cascade on the type of
  the object): the dialog of an aborted save, or the bytes and the name of the method.
\<close>

definition convert_to_bytes :: "pylib \<Rightarrow> heap \<Rightarrow> pyval \<Rightarrow> dialog + (bytes \<times> ustr)" where
  "convert_to_bytes L h obj =
     (case obj of
        PyBytes b \<Rightarrow> Inr (b, u ''raw bytes'')
      | PyStr s \<Rightarrow>
          (case utf8_encode L s of
             Inl e \<Rightarrow> (if exn_isa e UnicodeEncodeError
                       then Inl (Dialog showerror (u ''Encoding Error'') [Exc e])
                       else Inl (save_binary_handler e))
           | Inr data \<Rightarrow> Inr (data, u ''UTF-8 encoded text''))
      | _ \<Rightarrow>
          if is_number obj then
            (case py_str L h obj of
               Inl e \<Rightarrow> Inl (save_binary_handler e)
             | Inr s \<Rightarrow>
                 (case utf8_encode L s of
                    Inl e \<Rightarrow> Inl (save_binary_handler e)
                  | Inr data \<Rightarrow> Inr (data, u ''number as UTF-8 text'')))
          else if is_dict h obj \<or> is_list_or_tuple h obj then
            (case (case json_dumps L h obj 2 of
                     Inl e \<Rightarrow> Inl e
                   | Inr json_str \<Rightarrow> utf8_encode L json_str) of
               Inr data \<Rightarrow> Inr (data, u ''JSON encoded'')
             | Inl e \<Rightarrow>
                 if exn_isa e TypeError \<or> exn_isa e ValueError then
                   (case pickle_dumps L h obj None of
                      Inr data \<Rightarrow> Inr (data, u ''pickle (JSON failed)'')
                    | Inl pickle_error \<Rightarrow>
                        Inl (Dialog showerror (u ''Conversion Failed'') [Exc e, Exc pickle_error]))
                 else Inl (save_binary_handler e))
          else
            (case pickle_dumps L h obj None of
               Inr data \<Rightarrow> Inr (data, u ''pickle'')
             | Inl e \<Rightarrow> Inl (Dialog showerror (u ''Cannot Convert'') [Txt (type_name h obj), Exc e])))"

definition save_object_binary :: "pylib \<Rightarrow> user \<Rightarrow> browser \<Rightarrow> dialog list \<times> browser" where
  "save_object_binary L U st =
     (let obj = current_object st; h = heap st in
      if \<not> truthy h obj then ([Dialog showwarning (u ''No Object Selected'') []], st)
      else
        let obj_type = type_name h obj; filename = chosen_file U in
        if filename = [] then ([], st)
        else
          case convert_to_bytes L h obj of
            Inl d \<Rightarrow> ([d], st)
          | Inr (data, conversion_method) \<Rightarrow>
              (case write_file (fs st) filename data of
                 (Some e, d) \<Rightarrow>
                   ([Dialog showerror (u ''File Write Error'') [Exc e]], st\<lparr>fs := d\<rparr>)
               | (None, d) \<Rightarrow>
                   ([Dialog showinfo ([0x2713] @ u '' Binary Saved'')
                       [Txt obj_type, Txt conversion_method, Num (length data), Txt filename]],
                    st\<lparr>fs := d\<rparr>)))"

text \<open>\<open>', '.join(attempts)\<close>.\<close>

fun join_comma :: "ustr list \<Rightarrow> ustr" where
  "join_comma [] = []"
| "join_comma [x] = x"
| "join_comma (x # y # ys) = x @ u '', '' @ join_comma (y # ys)"

text \<open>
  The local variables of the format-sniffing chain of \<open>load_object_binary\<close> (\<open>interp\<close> is
  the variable \<open>interpretation\<close>), and its four steps in order. Steps 2 to 4 run when
  \<open>loaded_obj is None\<close>.
\<close>

record sniff =
  loaded_obj :: pyval
  interp :: ustr
  attempts :: "ustr list"
  new_heap :: heap

definition try_pickle :: "pylib \<Rightarrow> bytes \<Rightarrow> sniff \<Rightarrow> sniff" where
  "try_pickle L data s =
     (case pickle_loads L (new_heap s) data of
        Inr (v, h') \<Rightarrow> s\<lparr>loaded_obj := v, interp := u ''Python pickle'', new_heap := h'\<rparr>
      | Inl e \<Rightarrow> s\<lparr>attempts := attempts s @ [u ''Pickle: '' @ exn_name e]\<rparr>)"

definition try_json :: "pylib \<Rightarrow> bytes \<Rightarrow> sniff \<Rightarrow> sniff" where
  "try_json L data s =
     (if loaded_obj s = PyNone then
        (case utf8_decode L data of
           Inl e \<Rightarrow> s\<lparr>attempts := attempts s @ [u ''JSON: '' @ exn_name e]\<rparr>
         | Inr json_str \<Rightarrow>
             (case json_loads L (new_heap s) json_str of
                Inl e \<Rightarrow> s\<lparr>attempts := attempts s @ [u ''JSON: '' @ exn_name e]\<rparr>
              | Inr (v, h') \<Rightarrow>
                  s\<lparr>loaded_obj := v, interp := u ''JSON'', new_heap := h'\<rparr>))
      else s)"

definition try_text :: "pylib \<Rightarrow> bytes \<Rightarrow> sniff \<Rightarrow> sniff" where
  "try_text L data s =
     (if loaded_obj s = PyNone then
        (case utf8_decode L data of
           Inl e \<Rightarrow> s\<lparr>attempts := attempts s @ [u ''UTF-8: '' @ exn_name e]\<rparr>
         | Inr text \<Rightarrow> s\<lparr>loaded_obj := PyStr text, interp := u ''UTF-8 text''\<rparr>)
      else s)"

definition keep_raw :: "bytes \<Rightarrow> sniff \<Rightarrow> sniff" where
  "keep_raw data s =
     (if loaded_obj s = PyNone
      then s\<lparr>loaded_obj := PyBytes data, interp := u ''raw bytes''\<rparr>
      else s)"

definition interpret_bytes :: "pylib \<Rightarrow> heap \<Rightarrow> bytes \<Rightarrow> sniff" where
  "interpret_bytes L h data =
     keep_raw data (try_text L data (try_json L data (try_pickle L data
       \<lparr>loaded_obj = PyNone, interp = u ''unknown'', attempts = [], new_heap = h\<rparr>)))"

definition binary_loaded_info :: "ustr \<Rightarrow> sniff \<Rightarrow> ustr \<Rightarrow> nat \<Rightarrow> dialog" where
  "binary_loaded_info name s obj_type file_size =
     Dialog showinfo ([0x2713] @ u '' Binary Loaded'')
       ([Txt name, Txt (interp s), Txt obj_type, Num file_size]
        @ (if attempts s \<noteq> [] then [Txt (u ''Attempted: '' @ join_comma (attempts s))] else []))"

definition load_object_binary :: "pylib \<Rightarrow> user \<Rightarrow> browser \<Rightarrow> dialog list \<times> browser" where
  "load_object_binary L U st =
     (let filename = chosen_file U in
      if filename = [] then ([], st)
      else case files (fs st) filename of
        None \<Rightarrow> ([Dialog showerror (u ''File Not Found'') [Txt filename]], st)
      | Some data \<Rightarrow>
          if \<not> readable (fs st) filename
          then ([Dialog showerror (u ''Permission Denied'') [Txt filename]], st)
          else
            let file_size = length data in
            if file_size = 0 then ([Dialog showerror (u ''Empty File'') [Txt filename]], st)
            else
              let asked = (if file_size > large_file_limit
                           then [Dialog askyesno (u ''Large File'') [Num file_size]]
                           else [])
              in
              if asked \<noteq> [] \<and> \<not> continue_large U then (asked, st)
              else
                let s = interpret_bytes L (heap st) data;
                    obj_type = type_name (new_heap s) (loaded_obj s)
                in
                case entered_name (object_name U) of
                  None \<Rightarrow> (asked @ [Dialog showinfo (u ''Load Cancelled'') []], st)
                | Some name \<Rightarrow>
                    let dup = (if name \<in> fst ` set (loaded_objects st)
                               then [Dialog askyesno (u ''Duplicate Name'') [Txt name]]
                               else [])
                    in
                    if dup \<noteq> [] \<and> \<not> overwrite U then (asked @ dup, st)
                    else
                      (asked @ dup @ [binary_loaded_info name s obj_type file_size],
                       st\<lparr>loaded_objects :=
                             AList.update name (loaded_obj s) (loaded_objects st),
                          heap := new_heap s\<rparr>))"

section \<open>The settings document\<close>

text \<open>
  \<open>default_settings\<close> of \<open>SettingsWindow.load_settings\<close>: category, then key, then value.
\<close>

definition default_settings :: "(ustr \<times> (ustr \<times> json) list) list" where
  "default_settings =
     [(u ''browser'',
        [(u ''max_depth'', JInt 6),
         (u ''show_private'', JBool False),
         (u ''show_magic'', JBool True),
         (u ''expand_on_select'', JBool True),
         (u ''auto_refresh'', JBool False),
         (u ''search_case_sensitive'', JBool False)]),
      (u ''display'',
        [(u ''theme'', JStr (u ''default'')),
         (u ''font_family'', JStr (u ''Courier'')),
         (u ''font_size'', JInt 10),
         (u ''tree_font_size'', JInt 9),
         (u ''window_width'', JInt 1400),
         (u ''window_height'', JInt 900),
         (u ''status_bar_visible'', JBool True),
         (u ''line_numbers'', JBool False)]),
      (u ''editor'',
        [(u ''editor_command'', JStr (u ''notepad {filename}'')),
         (u ''syntax_highlighting'', JBool True),
         (u ''word_wrap'', JBool False),
         (u ''tab_size'', JInt 4),
         (u ''auto_indent'', JBool True)]),
      (u ''persistence'',
        [(u ''auto_save_loaded_objects'', JBool False),
         (u ''loaded_objects_file'', JStr (u ''loaded_objects.pkl'')),
         (u ''remember_window_position'', JBool True),
         (u ''max_recent_files'', JInt 10),
         (u ''pickle_protocol'', JInt 4)]),
      (u ''advanced'',
        [(u ''debug_mode'', JBool False),
         (u ''log_file'', JStr (u ''object_browser.log'')),
         (u ''enable_logging'', JBool False),
         (u ''performance_mode'', JBool False),
         (u ''large_file_warning_mb'', JInt 100),
         (u ''memory_limit_mb'', JInt 500)]),
      (u ''colors'',
        [(u ''background'', JStr (u ''white'')),
         (u ''foreground'', JStr (u ''black'')),
         (u ''keyword_color'', JStr (u ''blue'')),
         (u ''string_color'', JStr (u ''green'')),
         (u ''comment_color'', JStr (u ''gray'')),
         (u ''function_color'', JStr (u ''purple'')),
         (u ''selection_bg'', JStr (u ''lightblue'')),
         (u ''error_color'', JStr (u ''red''))])]"

text \<open>A dict of dicts as a document.\<close>

definition as_document :: "(ustr \<times> (ustr \<times> json) list) list \<Rightarrow> json" where
  "as_document cats = JObj (map (\<lambda>(category, vals). (category, JObj vals)) cats)"

text \<open>
  The three operations the merge applies to the loaded document, on whatever \<open>json.load\<close>
  returned: \<open>key in x\<close> (keys of a dict, elements of a list, substrings of a string, a
  \<open>TypeError\<close> otherwise), \<open>x[key]\<close> and \<open>x[key] = v\<close> (a \<open>TypeError\<close> unless \<open>x\<close> is a dict).
\<close>

fun contains_str :: "ustr \<Rightarrow> ustr \<Rightarrow> bool" where
  "contains_str [] sub = (sub = [])"
| "contains_str (c # cs) sub = (take (length sub) (c # cs) = sub \<or> contains_str cs sub)"

fun json_contains :: "json \<Rightarrow> ustr \<Rightarrow> exn + bool" where
  "json_contains (JObj kvs) key = Inr (key \<in> fst ` set kvs)"
| "json_contains (JArr xs) key = Inr (JStr key \<in> set xs)"
| "json_contains (JStr s) key = Inr (contains_str s key)"
| "json_contains x key = Inl TypeError"

fun json_getitem :: "json \<Rightarrow> ustr \<Rightarrow> exn + json" where
  "json_getitem (JObj kvs) key = (case map_of kvs key of None \<Rightarrow> Inl KeyError | Some v \<Rightarrow> Inr v)"
| "json_getitem x key = Inl TypeError"

fun json_setitem :: "json \<Rightarrow> ustr \<Rightarrow> json \<Rightarrow> exn + json" where
  "json_setitem (JObj kvs) key v = Inr (JObj (AList.update key v kvs))"
| "json_setitem x key v = Inl TypeError"

text \<open>
  The inner loop \<open>for key, default_val in values.items()\<close> on \<open>loaded[category]\<close>, and the
  outer loop \<open>for category, values in default_settings.items()\<close> on \<open>loaded\<close>. The source
  updates the dicts in place; here the updated category is put back into the document.
\<close>

fun fill_keys :: "json \<Rightarrow> (ustr \<times> json) list \<Rightarrow> exn + json" where
  "fill_keys cat [] = Inr cat"
| "fill_keys cat ((key, default_val) # rest) =
     (case json_contains cat key of
        Inl e \<Rightarrow> Inl e
      | Inr True \<Rightarrow> fill_keys cat rest
      | Inr False \<Rightarrow>
          (case json_setitem cat key default_val of
             Inl e \<Rightarrow> Inl e
           | Inr cat' \<Rightarrow> fill_keys cat' rest))"

fun merge_defaults :: "json \<Rightarrow> (ustr \<times> (ustr \<times> json) list) list \<Rightarrow> exn + json" where
  "merge_defaults loaded [] = Inr loaded"
| "merge_defaults loaded ((category, vals) # rest) =
     (case json_contains loaded category of
        Inl e \<Rightarrow> Inl e
      | Inr False \<Rightarrow>
          (case json_setitem loaded category (JObj vals) of
             Inl e \<Rightarrow> Inl e
           | Inr loaded' \<Rightarrow> merge_defaults loaded' rest)
      | Inr True \<Rightarrow>
          (case json_getitem loaded category of
             Inl e \<Rightarrow> Inl e
           | Inr cat \<Rightarrow>
               (case fill_keys cat vals of
                  Inl e \<Rightarrow> Inl e
                | Inr cat' \<Rightarrow>
                    (case json_setitem loaded category cat' of
                       Inl e \<Rightarrow> Inl e
                     | Inr loaded' \<Rightarrow> merge_defaults loaded' rest))))"

text \<open>
  \<open>SettingsWindow.load_settings\<close>. The argument is the file \<open>settings.json\<close>: absent, or
  what opening and parsing it gives. Any exception shows an error and leaves the defaults.
\<close>

definition load_settings :: "(exn + json) option \<Rightarrow> json \<times> dialog list" where
  "load_settings settings_file =
     (case settings_file of
        None \<Rightarrow> (as_document default_settings, [])
      | Some (Inl e) \<Rightarrow>
          (as_document default_settings, [Dialog showerror (u ''Settings Error'') [Exc e]])
      | Some (Inr loaded) \<Rightarrow>
          (case merge_defaults loaded default_settings of
             Inl e \<Rightarrow>
               (as_document default_settings, [Dialog showerror (u ''Settings Error'') [Exc e]])
           | Inr effective \<Rightarrow> (effective, [])))"

text \<open>The value stored under a category and a key of a document, if there is one.\<close>

definition lookup_category :: "json \<Rightarrow> ustr \<Rightarrow> json option" where
  "lookup_category doc category = (case doc of JObj cats \<Rightarrow> map_of cats category | _ \<Rightarrow> None)"

definition lookup_setting :: "json \<Rightarrow> ustr \<Rightarrow> ustr \<Rightarrow> json option" where
  "lookup_setting doc category key =
     (case lookup_category doc category of Some (JObj kvs) \<Rightarrow> map_of kvs key | _ \<Rightarrow> None)"

section \<open>Auxiliary definitions for the properties\<close>

text \<open>
  The depth of every item of a forest, when its top-level items are at depth \<open>d\<close>: an item
  inserted by the call of \<open>_enumerate_object\<close> at depth \<open>d\<close> has its children inserted by
  the call at depth \<open>d + 1\<close>.
\<close>

fun depths_from :: "nat \<Rightarrow> node \<Rightarrow> nat list" where
  "depths_from d (Node t ty p cs) = d # concat (map (depths_from (d + 1)) cs)"

definition forest_depths :: "nat \<Rightarrow> node list \<Rightarrow> nat list" where
  "forest_depths d ns = concat (map (depths_from d) ns)"

text \<open>
  The threshold the settings document configures, as the specification words it:
  \<open>advanced.large_file_warning_mb\<close> megabytes, 100 when the key is absent.
\<close>

definition configured_limit :: "json \<Rightarrow> nat" where
  "configured_limit doc =
     (case lookup_setting doc (u ''advanced'') (u ''large_file_warning_mb'') of
        Some (JInt mb) \<Rightarrow> nat mb * 1024 * 1024
      | _ \<Rightarrow> 100 * 1024 * 1024)"

subsection \<open>A small instance of the library\<close>

text \<open>
  An instance of \<open>pylib\<close> for the examples. It follows CPython on a fragment: \<open>str\<close> and
  \<open>repr\<close> of \<open>None\<close>, booleans, integers and plain ASCII strings; UTF-8 in full; pickles
  of \<open>None\<close>, booleans and one-byte integers at protocols 2 to 5, of a list holding one
  short \<open>bytes\<close> object at protocol 4, and the \<open>TypeError\<close> of pickling a Tk widget or an
  object that holds one; JSON texts \<open>null\<close>, \<open>true\<close>, \<open>false\<close> and integers, and JSON
  output of flat lists of integers. Outside the fragment an operation raises
  \<open>unmodelled\<close>, or the decoder's own error.
\<close>

definition unmodelled :: exn where
  "unmodelled = OtherError (u ''NotImplementedError'')"

definition int_str :: "int \<Rightarrow> ustr" where
  "int_str i = (if i < 0 then 45 # digits (nat (- i)) else digits (nat i))"

fun demo_str :: "heap \<Rightarrow> pyval \<Rightarrow> exn + ustr" where
  "demo_str h PyNone = Inr (u ''None'')"
| "demo_str h (PyBool b) = Inr (if b then u ''True'' else u ''False'')"
| "demo_str h (PyInt i) = Inr (int_str i)"
| "demo_str h (PyStr s) = Inr s"
| "demo_str h v = Inl unmodelled"

definition plain_char :: "nat \<Rightarrow> bool" where
  "plain_char c \<longleftrightarrow> 32 \<le> c \<and> c < 127 \<and> c \<noteq> 39 \<and> c \<noteq> 92"

fun demo_repr :: "heap \<Rightarrow> pyval \<Rightarrow> exn + ustr" where
  "demo_repr h (PyStr s) = (if list_all plain_char s then Inr ([39] @ s @ [39]) else Inl unmodelled)"
| "demo_repr h v = demo_str h v"

fun encode_point :: "nat \<Rightarrow> nat list option" where
  "encode_point c =
     (if c < 0x80 then Some [c]
      else if c < 0x800 then Some [0xC0 + c div 64, 0x80 + c mod 64]
      else if 0xD800 \<le> c \<and> c < 0xE000 then None
      else if c < 0x10000
      then Some [0xE0 + c div 4096, 0x80 + (c div 64) mod 64, 0x80 + c mod 64]
      else if c < 0x110000
      then Some [0xF0 + c div 262144, 0x80 + (c div 4096) mod 64,
                 0x80 + (c div 64) mod 64, 0x80 + c mod 64]
      else None)"

fun demo_utf8_encode :: "ustr \<Rightarrow> exn + bytes" where
  "demo_utf8_encode [] = Inr []"
| "demo_utf8_encode (c # cs) =
     (case encode_point c of
        None \<Rightarrow> Inl UnicodeEncodeError
      | Some bs \<Rightarrow>
          (case demo_utf8_encode cs of
             Inl e \<Rightarrow> Inl e
           | Inr rest \<Rightarrow> Inr (map of_nat bs @ rest)))"

definition continuation :: "nat \<Rightarrow> bool" where
  "continuation b \<longleftrightarrow> 0x80 \<le> b \<and> b < 0xC0"

fun decode_points :: "nat list \<Rightarrow> ustr option" where
  "decode_points [] = Some []"
| "decode_points (b # bs) =
     (if b < 0x80 then map_option ((#) b) (decode_points bs)
      else if 0xC2 \<le> b \<and> b < 0xE0 then
        (case bs of
           c1 # r \<Rightarrow>
             if continuation c1
             then map_option ((#) ((b - 0xC0) * 64 + (c1 - 0x80))) (decode_points r)
             else None
         | _ \<Rightarrow> None)
      else if 0xE0 \<le> b \<and> b < 0xF0 then
        (case bs of
           c1 # c2 # r \<Rightarrow>
             (let cp = (b - 0xE0) * 4096 + (c1 - 0x80) * 64 + (c2 - 0x80)
              in if continuation c1 \<and> continuation c2 \<and> 0x800 \<le> cp
                    \<and> \<not> (0xD800 \<le> cp \<and> cp < 0xE000)
                 then map_option ((#) cp) (decode_points r)
                 else None)
         | _ \<Rightarrow> None)
      else if 0xF0 \<le> b \<and> b < 0xF5 then
        (case bs of
           c1 # c2 # c3 # r \<Rightarrow>
             (let cp = (b - 0xF0) * 262144 + (c1 - 0x80) * 4096 + (c2 - 0x80) * 64 + (c3 - 0x80)
              in if continuation c1 \<and> continuation c2 \<and> continuation c3
                    \<and> 0x10000 \<le> cp \<and> cp < 0x110000
                 then map_option ((#) cp) (decode_points r)
                 else None)
         | _ \<Rightarrow> None)
      else None)"

definition demo_utf8_decode :: "bytes \<Rightarrow> exn + ustr" where
  "demo_utf8_decode data =
     (case decode_points (map unat data) of
        None \<Rightarrow> Inl UnicodeDecodeError
      | Some s \<Rightarrow> Inr s)"

text \<open>
  Pickle opcodes: \<open>0x80 p\<close> is \<open>PROTO p\<close>, \<open>0x4E\<close> \<open>NONE\<close>, \<open>0x88\<close> \<open>NEWTRUE\<close>, \<open>0x89\<close>
  \<open>NEWFALSE\<close>, \<open>0x4B n\<close> \<open>BININT1 n\<close>, \<open>0x2E\<close> \<open>STOP\<close>; \<open>0x95\<close> with eight length
  bytes is \<open>FRAME\<close>, \<open>0x5D\<close> \<open>EMPTY_LIST\<close>, \<open>0x94\<close> \<open>MEMOIZE\<close>, \<open>0x43 n\<close>
  \<open>SHORT_BINBYTES\<close>, \<open>0x61\<close> \<open>APPEND\<close>. The default protocol is 4.
\<close>

definition demo_pickle_dumps :: "heap \<Rightarrow> pyval \<Rightarrow> nat option \<Rightarrow> exn + bytes" where
  "demo_pickle_dumps h v protocol =
     (let p = of_nat (case protocol of None \<Rightarrow> 4 | Some n \<Rightarrow> n) in
      case v of
        PyNone \<Rightarrow> Inr [0x80, p, 0x4E, 0x2E]
      | PyBool b \<Rightarrow> Inr [0x80, p, if b then 0x88 else 0x89, 0x2E]
      | PyInt i \<Rightarrow> if 0 \<le> i \<and> i < 256 then Inr [0x80, p, 0x4B, of_int i, 0x2E]
                   else Inl unmodelled
      | PyRef a \<Rightarrow>
          if is_non_picklable_type h v \<or> (\<exists>x \<in> set (vars_values h v). is_widget h x)
          then Inl TypeError
          else (case h a of
                  OList [PyBytes b] \<Rightarrow>
                    if p = 4 \<and> length b < 249
                    then Inr ([0x80, p, 0x95, of_nat (7 + length b), 0, 0, 0, 0, 0, 0, 0,
                               0x5D, 0x94, 0x43, of_nat (length b)] @ b @ [0x94, 0x61, 0x2E])
                    else Inl unmodelled
                | _ \<Rightarrow> Inl unmodelled)
      | _ \<Rightarrow> Inl unmodelled)"

definition demo_pickle_loads :: "heap \<Rightarrow> bytes \<Rightarrow> exn + (pyval \<times> heap)" where
  "demo_pickle_loads h data =
     (case data of
        [m, p, opc, stop] \<Rightarrow>
          if m = 0x80 \<and> 2 \<le> p \<and> p \<le> 5 \<and> stop = 0x2E then
            (if opc = 0x4E then Inr (PyNone, h)
             else if opc = 0x88 then Inr (PyBool True, h)
             else if opc = 0x89 then Inr (PyBool False, h)
             else Inl UnpicklingError)
          else Inl UnpicklingError
      | [m, p, opc, n, stop] \<Rightarrow>
          if m = 0x80 \<and> 2 \<le> p \<and> p \<le> 5 \<and> opc = 0x4B \<and> stop = 0x2E
          then Inr (PyInt (uint n), h)
          else Inl UnpicklingError
      | _ \<Rightarrow> Inl UnpicklingError)"

fun parse_digits :: "nat \<Rightarrow> ustr \<Rightarrow> nat option" where
  "parse_digits acc [] = Some acc"
| "parse_digits acc (c # cs) =
     (if 48 \<le> c \<and> c < 58 then parse_digits (10 * acc + (c - 48)) cs else None)"

definition parse_json_int :: "ustr \<Rightarrow> int option" where
  "parse_json_int s =
     (case s of
        [] \<Rightarrow> None
      | c # cs \<Rightarrow>
          if c = 45 then
            (case cs of
               [] \<Rightarrow> None
             | d # ds \<Rightarrow> if d = 48 \<and> ds \<noteq> [] then None
                          else map_option (\<lambda>n. - int n) (parse_digits 0 cs))
          else if c = 48 \<and> cs \<noteq> [] then None
          else map_option int (parse_digits 0 s))"

definition demo_json_loads :: "heap \<Rightarrow> ustr \<Rightarrow> exn + (pyval \<times> heap)" where
  "demo_json_loads h s =
     (if s = u ''null'' then Inr (PyNone, h)
      else if s = u ''true'' then Inr (PyBool True, h)
      else if s = u ''false'' then Inr (PyBool False, h)
      else case parse_json_int s of
             Some i \<Rightarrow> Inr (PyInt i, h)
           | None \<Rightarrow> Inl JSONDecodeError)"

fun json_items :: "nat \<Rightarrow> pyval list \<Rightarrow> exn + ustr list" where
  "json_items indent [] = Inr []"
| "json_items indent (v # vs) =
     (case v of
        PyInt i \<Rightarrow>
          (case json_items indent vs of
             Inl e \<Rightarrow> Inl e
           | Inr rest \<Rightarrow> Inr ((replicate indent 32 @ int_str i) # rest))
      | PyBytes b \<Rightarrow> Inl TypeError
      | _ \<Rightarrow> Inl unmodelled)"

fun join_lines :: "ustr list \<Rightarrow> ustr" where
  "join_lines [] = []"
| "join_lines [x] = x"
| "join_lines (x # y # ys) = x @ [44, 10] @ join_lines (y # ys)"

definition json_array :: "nat \<Rightarrow> pyval list \<Rightarrow> exn + ustr" where
  "json_array indent xs =
     (if xs = [] then Inr (u ''[]'')
      else case json_items indent xs of
             Inl e \<Rightarrow> Inl e
           | Inr ls \<Rightarrow> Inr ([91, 10] @ join_lines ls @ [10, 93]))"

definition demo_json_dumps :: "heap \<Rightarrow> pyval \<Rightarrow> nat \<Rightarrow> exn + ustr" where
  "demo_json_dumps h v indent =
     (case v of
        PyRef a \<Rightarrow>
          (case h a of
             OList xs \<Rightarrow> json_array indent xs
           | OTuple xs \<Rightarrow> json_array indent xs
           | _ \<Rightarrow> Inl unmodelled)
      | _ \<Rightarrow> Inl unmodelled)"

definition demo_lib :: pylib where
  "demo_lib =
     \<lparr>py_str = demo_str, py_repr = demo_repr,
      builtin_members = (\<lambda>v. Inl unmodelled),
      utf8_encode = demo_utf8_encode, utf8_decode = demo_utf8_decode,
      highest_protocol = 5,
      pickle_dumps = demo_pickle_dumps, pickle_loads = demo_pickle_loads,
      json_dumps = demo_json_dumps, json_loads = demo_json_loads\<rparr>"

subsection \<open>Example heaps and documents\<close>

text \<open>An object whose attribute \<open>me\<close> is the object itself.\<close>

definition box_heap :: heap where
  "box_heap = (\<lambda>a. OInst \<lparr>cls_name = u ''Box'',
       members = Inr [(u ''me'', Inr (PyRef 0)), (u ''size'', Inr (PyInt 3))],
       inst_vars = [(u ''me'', PyRef 0), (u ''size'', PyInt 3)],
       inst_callable = False, inst_has_dict = True, inst_truthy = True,
       isa_widget = False, isa_tk_window = False\<rparr>)"

text \<open>
  The dict \<open>{'f': functools.partial(print)}\<close>: address 0 is the dict, 1 the partial object
  (callable, with the public attributes \<open>args\<close>, \<open>func\<close> and \<open>keywords\<close>; its names that
  start with an underscore are skipped below the root and left out), 2 its empty argument
  tuple, 3 the built-in \<open>print\<close>, 4 its empty keyword dict.
\<close>

definition partial_heap :: heap where
  "partial_heap = (\<lambda>a.
     if a = 0 then ODict [(PyStr (u ''f''), PyRef 1)]
     else if a = 1 then
       OInst \<lparr>cls_name = u ''partial'',
         members = Inr [(u ''args'', Inr (PyRef 2)), (u ''func'', Inr (PyRef 3)),
                        (u ''keywords'', Inr (PyRef 4))],
         inst_vars = [], inst_callable = True, inst_has_dict = True, inst_truthy = True,
         isa_widget = False, isa_tk_window = False\<rparr>
     else if a = 2 then OTuple []
     else if a = 3 then
       OInst \<lparr>cls_name = u ''builtin_function_or_method'', members = Inr [],
         inst_vars = [], inst_callable = True, inst_has_dict = False, inst_truthy = True,
         isa_widget = False, isa_tk_window = False\<rparr>
     else ODict [])"

text \<open>
  A loaded document is shaped like a settings document when it is a mapping and each of
  the default categories it has is a mapping too.
\<close>

definition is_obj :: "json \<Rightarrow> bool" where
  "is_obj v = (case v of JObj kvs \<Rightarrow> True | _ \<Rightarrow> False)"

definition settings_shaped :: "json \<Rightarrow> bool" where
  "settings_shaped doc =
     (case doc of
        JObj cats \<Rightarrow>
          list_all (\<lambda>(category, vals). case map_of cats category of
                                          None \<Rightarrow> True | Some v \<Rightarrow> is_obj v) default_settings
      | _ \<Rightarrow> False)"

definition stored :: "(ustr \<times> json) list \<Rightarrow> ustr \<Rightarrow> ustr \<Rightarrow> json option" where
  "stored cats c k = (case map_of cats c of Some (JObj kvs) \<Rightarrow> map_of kvs k | _ \<Rightarrow> None)"

text \<open>A document with one customised key, one category of its own, and no \<open>colors\<close>.\<close>

definition sample_loaded :: json where
  "sample_loaded =
     JObj [(u ''browser'', JObj [(u ''max_depth'', JInt 3)]),
           (u ''plugins'', JObj [(u ''enabled'', JBool True)])]"

subsection \<open>Example states of the browser\<close>

definition empty_heap :: heap where
  "empty_heap = (\<lambda>a. ODict [])"

text \<open>A disk with one file, a browser with nothing selected or loaded, and a user.\<close>

definition disk_with :: "ustr \<Rightarrow> bytes \<Rightarrow> filesys" where
  "disk_with name data =
     \<lparr>files = [name \<mapsto> data], readable = (\<lambda>f. True), on_write = (\<lambda>f. Completes)\<rparr>"

definition empty_disk :: filesys where
  "empty_disk = \<lparr>files = Map.empty, readable = (\<lambda>f. True), on_write = (\<lambda>f. Completes)\<rparr>"

definition browser_on :: "filesys \<Rightarrow> browser" where
  "browser_on d =
     \<lparr>current_object = PyNone, current_object_path = [], loaded_objects = [],
      settings = JObj [], heap = empty_heap, fs = d\<rparr>"

definition user_for :: "ustr \<Rightarrow> ustr \<Rightarrow> user" where
  "user_for file name =
     \<lparr>chosen_file = file, continue_with_widgets = False, continue_large = False,
      object_name = Some name, overwrite = False\<rparr>"

fun box_of :: "dialog \<Rightarrow> box" where
  "box_of (Dialog b title details) = b"

text \<open>\<open>pickle.dumps(None)\<close>.\<close>

definition pickled_none :: bytes where
  "pickled_none = [0x80, 0x04, 0x4E, 0x2E]"

text \<open>
  What step 1 of the sniffing chain leaves behind: whether \<open>loaded_obj\<close> is still \<open>None\<close>
  (the decoder raised, or it returned \<open>None\<close>), and the heap.
\<close>

definition pickle_gave_nothing :: "pylib \<Rightarrow> heap \<Rightarrow> bytes \<Rightarrow> bool" where
  "pickle_gave_nothing L h data =
     (case pickle_loads L h data of Inl e \<Rightarrow> True | Inr (v, h') \<Rightarrow> v = PyNone)"

definition heap_after_pickle :: "pylib \<Rightarrow> heap \<Rightarrow> bytes \<Rightarrow> heap" where
  "heap_after_pickle L h data =
     (case pickle_loads L h data of Inl e \<Rightarrow> h | Inr (v, h') \<Rightarrow> h')"

text \<open>The entry step 1 leaves in \<open>attempts\<close>: one when the decoder raised, none otherwise.\<close>

definition pickle_attempt :: "pylib \<Rightarrow> heap \<Rightarrow> bytes \<Rightarrow> ustr list" where
  "pickle_attempt L h data =
     (case pickle_loads L h data of
        Inl e \<Rightarrow> [u ''Pickle: '' @ exn_name e]
      | Inr r \<Rightarrow> [])"

text \<open>
  The checks of \<open>save_object_python\<close> that come before \<open>pickle.dumps\<close>: an object is
  selected, it is no widget, the user goes on if it holds widgets, and a file is chosen.
\<close>

definition reaches_dumps :: "user \<Rightarrow> browser \<Rightarrow> bool" where
  "reaches_dumps U st =
     (truthy (heap st) (current_object st)
      \<and> \<not> is_non_picklable_type (heap st) (current_object st)
      \<and> (\<not> (has_dict (heap st) (current_object st)
              \<and> (\<exists>v \<in> set (vars_values (heap st) (current_object st)). is_widget (heap st) v))
          \<or> continue_with_widgets U)
      \<and> chosen_file U \<noteq> [])"

text \<open>A panel object (address 0) whose attribute \<open>button\<close> is a Tk widget (address 1).\<close>

definition panel_heap :: heap where
  "panel_heap = (\<lambda>a.
     if a = 0 then
       OInst \<lparr>cls_name = u ''Panel'', members = Inr [(u ''button'', Inr (PyRef 1))],
         inst_vars = [(u ''button'', PyRef 1)], inst_callable = False, inst_has_dict = True,
         inst_truthy = True, isa_widget = False, isa_tk_window = False\<rparr>
     else
       OInst \<lparr>cls_name = u ''Button'', members = Inr [], inst_vars = [],
         inst_callable = False, inst_has_dict = True, inst_truthy = True,
         isa_widget = True, isa_tk_window = False\<rparr>)"

text \<open>The list \<open>[b'x']\<close> at address 0, the list \<open>[1, 2]\<close> at address 1.\<close>

definition list_heap :: heap where
  "list_heap = (\<lambda>a. if a = 0 then OList [PyBytes [0x78]] else OList [PyInt 1, PyInt 2])"

text \<open>
  A settings document that sets \<open>advanced.large_file_warning_mb\<close> to 1, a file of two
  megabytes, and a user who would not confirm.
\<close>

definition one_mb_settings :: json where
  "one_mb_settings = JObj [(u ''advanced'', JObj [(u ''large_file_warning_mb'', JInt 1)])]"

definition two_mb_state :: browser where
  "two_mb_state =
     (browser_on (disk_with (u ''big.bin'') (replicate (2 * 1024 * 1024) 0)))
       \<lparr>settings := one_mb_settings\<rparr>"

definition huge_state :: browser where
  "huge_state = browser_on (disk_with (u ''huge.bin'') (replicate (100 * 1024 * 1024 + 1) 0))"

text \<open>
  Browsers with a selected object: the integer 5, the panel, the integer 42; and a user
  who answers yes to every question.
\<close>

definition five_state :: browser where
  "five_state = (browser_on empty_disk)\<lparr>current_object := PyInt 5\<rparr>"

definition panel_state :: browser where
  "panel_state = (browser_on empty_disk)\<lparr>current_object := PyRef 0, heap := panel_heap\<rparr>"

definition keen_user :: "ustr \<Rightarrow> user" where
  "keen_user file =
     \<lparr>chosen_file = file, continue_with_widgets = True, continue_large = True,
      object_name = Some (u ''obj''), overwrite = True\<rparr>"

definition number_state :: browser where
  "number_state = (browser_on empty_disk)\<lparr>current_object := PyInt 42\<rparr>"

text \<open>
  A disk that holds an older \<open>five.pkl\<close> and on which a write breaks off after two bytes,
  and the browser with the integer 5 selected on it.
\<close>

definition failing_disk :: filesys where
  "failing_disk =
     \<lparr>files = [u ''five.pkl'' \<mapsto> [0x01, 0x02, 0x03]], readable = (\<lambda>f. True),
      on_write = (\<lambda>f. Breaks 2)\<rparr>"

definition failing_disk_state :: browser where
  "failing_disk_state = (browser_on failing_disk)\<lparr>current_object := PyInt 5\<rparr>"

section \<open>Properties of the graph walker\<close>

lemma forest_depths_simps [simp]:
  "forest_depths d [] = []"
  "forest_depths d (Node t ty p cs # ns) = d # forest_depths (d + 1) cs @ forest_depths d ns"
  by (simp_all add: forest_depths_def)

lemma dict_loop_depths:
  assumes "d < m" and "\<And>v p. \<forall>k \<in> set (forest_depths (d + 1) (rec v p)). k < m"
  shows "\<forall>k \<in> set (forest_depths d (dict_loop L h rec nm kvs)). k < m"
  using assms
  by (induction kvs) (auto simp: Let_def split: sum.splits if_splits)

lemma seq_loop_depths:
  assumes "d < m" and "\<And>v p. \<forall>k \<in> set (forest_depths (d + 1) (rec v p)). k < m"
  shows "\<forall>k \<in> set (forest_depths d (seq_loop L h rec nm i xs)). k < m"
  using assms
  by (induction xs arbitrary: i) (auto simp: Let_def split: sum.splits if_splits)

lemma attr_loop_depths:
  assumes "d < m" and "\<And>v p. \<forall>k \<in> set (forest_depths (d + 1) (rec v p)). k < m"
  shows "\<forall>k \<in> set (forest_depths d (attr_loop L h rec nm dd ms)). k < m"
  using assms
  by (induction ms) (auto simp: Let_def split: sum.splits if_splits)

text \<open>
  C6. For every input value, a composite value that contains a reference to itself
  included, graph expansion terminates within \<open>max_depth\<close> recursive levels and produces
  no item at a depth greater than or equal to \<open>max_depth\<close>, whatever the branching factor.
  \<open>enumerate_object\<close> is a total function of any heap, cyclic or not: its recursion
  descends on \<open>max_depth - depth\<close> alone. Every item it returns, at any nesting, was
  inserted by a call at a depth below \<open>max_depth\<close>.
\<close>

theorem enumerate_object_depth_bound:
  "\<forall>k \<in> set (forest_depths depth (enumerate_object L h obj obj_name depth max_depth)). k < max_depth"
proof (induction L h obj obj_name depth max_depth rule: enumerate_object.induct)
  case (1 L h obj obj_name depth max_depth)
  show ?case
  proof (cases "depth \<ge> max_depth")
    case True
    then show ?thesis by (simp add: enumerate_object.simps)
  next
    case False
    then have lt: "depth < max_depth" by simp
    have ih: "\<And>v p. \<forall>k \<in> set (forest_depths (depth + 1)
                 (enumerate_object L h v p (depth + 1) max_depth)). k < max_depth"
      using "1.IH" [OF False] by blast
    show ?thesis
      using lt dict_loop_depths [OF lt ih] seq_loop_depths [OF lt ih] attr_loop_depths [OF lt ih]
      by (subst enumerate_object.simps) (simp add: Let_def split: pyval.splits pyobj.splits sum.splits)
  qed
qed

theorem enumerate_object_depth_bound_witness:
  "forest_depths 0 (enumerate_object demo_lib box_heap (PyRef 0) (u ''obj'') 0 3)
     = [0, 1, 2, 2, 1, 0]
   \<and> list_all (\<lambda>k. k < 3)
         (forest_depths 0 (enumerate_object demo_lib box_heap (PyRef 0) (u ''obj'') 0 3))"
  using enumerate_object_depth_bound
    [where L = demo_lib and h = box_heap and obj = "PyRef 0" and obj_name = "u ''obj''"
       and depth = 0 and max_depth = 3]
  by (simp add: enumerate_object.simps box_heap_def demo_lib_def Let_def
        startswith_underscore_def u_def is_simple_or_none_def)

lemma demo_lib_sel:
  "py_str demo_lib = demo_str" "py_repr demo_lib = demo_repr"
  "builtin_members demo_lib = (\<lambda>v. Inl unmodelled)"
  "utf8_encode demo_lib = demo_utf8_encode" "utf8_decode demo_lib = demo_utf8_decode"
  "highest_protocol demo_lib = 5"
  "pickle_dumps demo_lib = demo_pickle_dumps" "pickle_loads demo_lib = demo_pickle_loads"
  "json_dumps demo_lib = demo_json_dumps" "json_loads demo_lib = demo_json_loads"
  by (simp_all add: demo_lib_def)

lemma partial_heap_at:
  "partial_heap 0 = ODict [(PyStr (u ''f''), PyRef 1)]"
  "partial_heap (Suc 0) =
       OInst \<lparr>cls_name = u ''partial'',
         members = Inr [(u ''args'', Inr (PyRef 2)), (u ''func'', Inr (PyRef 3)),
                        (u ''keywords'', Inr (PyRef 4))],
         inst_vars = [], inst_callable = True, inst_has_dict = True, inst_truthy = True,
         isa_widget = False, isa_tk_window = False\<rparr>"
  "partial_heap 2 = OTuple []"
  "partial_heap 3 =
       OInst \<lparr>cls_name = u ''builtin_function_or_method'', members = Inr [],
         inst_vars = [], inst_callable = True, inst_has_dict = False, inst_truthy = True,
         isa_widget = False, isa_tk_window = False\<rparr>"
  "partial_heap 4 = ODict []"
  by (simp_all add: partial_heap_def)

text \<open>
  C7. Callables are never expanded: an item whose value is callable has no children,
  whether the callable was reached as an attribute, as a mapping value or as a sequence
  element. The attribute loop tests \<open>callable\<close> before it recurses; the dict and sequence
  loops do not. For the dict \<open>{'f': functools.partial(print)}\<close> the item of the callable
  \<open>f\<close> gets three children.
\<close>

theorem dict_value_callable_expanded:
  "callable partial_heap (PyRef 1) \<and>
   map (\<lambda>n. (node_path n, map node_path (children n)))
     (enumerate_object demo_lib partial_heap (PyRef 0) (u ''obj'') 0 6)
   = [(u ''obj['' @ [39] @ u ''f'' @ [39] @ u '']'',
       [u ''obj['' @ [39] @ u ''f'' @ [39] @ u ''].args'',
        u ''obj['' @ [39] @ u ''f'' @ [39] @ u ''].func'',
        u ''obj['' @ [39] @ u ''f'' @ [39] @ u ''].keywords''])]"
  by (simp add: enumerate_object.simps [where obj = "PyRef 0"]
        enumerate_object.simps [where obj = "PyRef (Suc 0)"]
        enumerate_object.simps [where obj = "PyRef 2"]
        enumerate_object.simps [where obj = "PyRef 4"]
        partial_heap_at demo_lib_sel Let_def
        startswith_underscore_def u_def is_simple_or_none_def plain_char_def attr_prefix_def)

text \<open>The attribute loop never consults the recursive call on a callable.\<close>

lemma attr_loop_skips_callables:
  "(\<And>v p. \<not> callable h v \<Longrightarrow> rec v p = rec' v p) \<Longrightarrow>
   attr_loop L h rec nm d ms = attr_loop L h rec' nm d ms"
  by (induction ms) (auto simp: Let_def split: sum.splits)

section \<open>Properties of the settings merge\<close>

lemma fill_keys_obj:
  "\<exists>kvs'. fill_keys (JObj kvs) vals = Inr (JObj kvs')
      \<and> (\<forall>k. map_of kvs' k = (case map_of kvs k of Some v \<Rightarrow> Some v | None \<Rightarrow> map_of vals k))"
proof (induction vals arbitrary: kvs)
  case Nil
  then show ?case by (simp split: option.splits)
next
  case (Cons kv vals)
  obtain key dv where kv: "kv = (key, dv)" by (cases kv)
  show ?case
  proof (cases "key \<in> fst ` set kvs")
    case True
    then obtain v where v: "map_of kvs key = Some v"
      by (metis map_of_eq_None_iff not_Some_eq)
    from Cons.IH [of kvs] obtain kvs' where
      k: "fill_keys (JObj kvs) vals = Inr (JObj kvs')"
         "\<forall>k. map_of kvs' k = (case map_of kvs k of Some v \<Rightarrow> Some v | None \<Rightarrow> map_of vals k)"
      by blast
    have "\<forall>k. map_of kvs' k =
            (case map_of kvs k of Some v \<Rightarrow> Some v | None \<Rightarrow> map_of (kv # vals) k)"
      using v k(2) by (simp add: kv split: option.splits)
    with k(1) True show ?thesis by (simp add: kv)
  next
    case False
    then have n: "map_of kvs key = None" by (simp add: map_of_eq_None_iff)
    from Cons.IH [of "AList.update key dv kvs"] obtain kvs' where
      k: "fill_keys (JObj (AList.update key dv kvs)) vals = Inr (JObj kvs')"
         "\<forall>k. map_of kvs' k = (case map_of (AList.update key dv kvs) k of
                                 Some v \<Rightarrow> Some v | None \<Rightarrow> map_of vals k)"
      by blast
    have "\<forall>k. map_of kvs' k =
            (case map_of kvs k of Some v \<Rightarrow> Some v | None \<Rightarrow> map_of (kv # vals) k)"
      using n k(2) by (simp add: kv update_conv' split: option.splits)
    with k(1) False show ?thesis by (simp add: kv)
  qed
qed

lemma merge_defaults_obj:
  assumes "distinct (map fst defs)"
    and "\<forall>c \<in> fst ` set defs. \<forall>v. map_of cats c = Some v \<longrightarrow> is_obj v"
  shows "\<exists>cats'. merge_defaults (JObj cats) defs = Inr (JObj cats')
           \<and> (\<forall>c k. stored cats' c k =
                 (case stored cats c k of
                    Some v \<Rightarrow> Some v
                  | None \<Rightarrow> (case map_of defs c of Some vals \<Rightarrow> map_of vals k | None \<Rightarrow> None)))
           \<and> (\<forall>c. c \<notin> fst ` set defs \<longrightarrow> map_of cats' c = map_of cats c)"
  using assms
proof (induction defs arbitrary: cats)
  case Nil
  then show ?case by (simp split: option.splits)
next
  case (Cons d defs)
  obtain c vals where d: "d = (c, vals)" by (cases d)
  from Cons.prems have dist: "distinct (map fst defs)" and cnot: "c \<notin> fst ` set defs"
    by (auto simp: d)
  have cnone: "map_of defs c = None" using cnot by (simp add: map_of_eq_None_iff)
  define cat1 where "cat1 =
     (case map_of cats c of None \<Rightarrow> JObj vals
      | Some v \<Rightarrow> (case fill_keys v vals of Inr x \<Rightarrow> x | Inl e \<Rightarrow> JNull))"
  define cats1 where "cats1 = AList.update c cat1 cats"
  have step: "merge_defaults (JObj cats) (d # defs) = merge_defaults (JObj cats1) defs"
    and ls1: "\<And>k. stored cats1 c k = (case stored cats c k of Some v \<Rightarrow> Some v | None \<Rightarrow> map_of vals k)"
  proof -
    show "merge_defaults (JObj cats) (d # defs) = merge_defaults (JObj cats1) defs"
    proof (cases "map_of cats c")
      case None
      then have "c \<notin> fst ` set cats" by (simp add: map_of_eq_None_iff)
      with None show ?thesis by (simp add: d cats1_def cat1_def)
    next
      case (Some v)
      then have "is_obj v" using Cons.prems(2) by (simp add: d)
      then obtain kvs where v: "v = JObj kvs" by (cases v) (simp_all add: is_obj_def)
      from fill_keys_obj [of kvs vals] obtain kvs' where
        "fill_keys (JObj kvs) vals = Inr (JObj kvs')" by blast
      moreover have "c \<in> fst ` set cats" using Some by (metis map_of_eq_None_iff option.distinct(1))
      ultimately show ?thesis using Some by (simp add: d cats1_def cat1_def v)
    qed
    fix k
    show "stored cats1 c k = (case stored cats c k of Some v \<Rightarrow> Some v | None \<Rightarrow> map_of vals k)"
    proof (cases "map_of cats c")
      case None
      then show ?thesis by (simp add: stored_def cats1_def cat1_def update_conv')
    next
      case (Some v)
      then have "is_obj v" using Cons.prems(2) by (simp add: d)
      then obtain kvs where v: "v = JObj kvs" by (cases v) (simp_all add: is_obj_def)
      from fill_keys_obj [of kvs vals] obtain kvs' where
        "fill_keys (JObj kvs) vals = Inr (JObj kvs')"
        "\<forall>k. map_of kvs' k = (case map_of kvs k of Some v \<Rightarrow> Some v | None \<Rightarrow> map_of vals k)"
        by blast
      then show ?thesis using Some
        by (simp add: stored_def cats1_def cat1_def update_conv' v)
    qed
  qed
  have other: "\<And>c'. c' \<noteq> c \<Longrightarrow> map_of cats1 c' = map_of cats c'"
    by (simp add: cats1_def update_conv')
  have shape1: "\<forall>c' \<in> fst ` set defs. \<forall>v. map_of cats1 c' = Some v \<longrightarrow> is_obj v"
  proof (intro ballI allI impI)
    fix c' v assume c': "c' \<in> fst ` set defs" and v: "map_of cats1 c' = Some v"
    from c' cnot have "c' \<noteq> c" by blast
    with other v have "map_of cats c' = Some v" by simp
    moreover from c' have "c' \<in> fst ` set (d # defs)" by simp
    ultimately show "is_obj v" using Cons.prems(2) by blast
  qed
  from Cons.IH [OF dist shape1] obtain cats' where
    m: "merge_defaults (JObj cats1) defs = Inr (JObj cats')"
    and l: "\<forall>c k. stored cats' c k =
                 (case stored cats1 c k of
                    Some v \<Rightarrow> Some v
                  | None \<Rightarrow> (case map_of defs c of Some vals \<Rightarrow> map_of vals k | None \<Rightarrow> None))"
    and o: "\<forall>c. c \<notin> fst ` set defs \<longrightarrow> map_of cats' c = map_of cats1 c"
    by blast
  have lsother: "\<And>c' k. c' \<noteq> c \<Longrightarrow> stored cats1 c' k = stored cats c' k"
    by (simp add: stored_def other)
  have "\<forall>c' k. stored cats' c' k =
                 (case stored cats c' k of
                    Some v \<Rightarrow> Some v
                  | None \<Rightarrow> (case map_of (d # defs) c' of Some vals \<Rightarrow> map_of vals k | None \<Rightarrow> None))"
  proof (intro allI)
    fix c' k
    show "stored cats' c' k =
                 (case stored cats c' k of
                    Some v \<Rightarrow> Some v
                  | None \<Rightarrow> (case map_of (d # defs) c' of Some vals \<Rightarrow> map_of vals k | None \<Rightarrow> None))"
    proof (cases "c' = c")
      case True
      then show ?thesis using l ls1 [of k] cnone
        by (simp add: d cong: option.case_cong split: option.splits)
    next
      case False
      then show ?thesis using l lsother [of c' k] by (simp add: d cong: option.case_cong)
    qed
  qed
  moreover have "\<forall>c'. c' \<notin> fst ` set (d # defs) \<longrightarrow> map_of cats' c' = map_of cats c'"
    using o other by (simp add: d)
  ultimately show ?case using step m by simp
qed

lemma default_categories_distinct: "distinct (map fst default_settings)"
  by (simp add: default_settings_def u_def)

lemma lookup_setting_document:
  "lookup_setting (as_document defs) c k =
     (case map_of defs c of Some vals \<Rightarrow> map_of vals k | None \<Rightarrow> None)"
proof -
  have "map_of (map (\<lambda>(category, vals). (category, JObj vals)) defs) c
          = map_option JObj (map_of defs c)"
    by (induction defs) auto
  then show ?thesis
    by (simp add: lookup_setting_def lookup_category_def as_document_def split: option.splits)
qed

text \<open>
  C9. After merging a loaded settings document with the defaults, every (category, key)
  pair of the default document is present in the effective document (missing categories
  and missing keys are backfilled with the default values), and the categories and keys
  that only the loaded document has are preserved verbatim.
\<close>

theorem load_settings_merge:
  assumes "settings_shaped loaded"
  shows "snd (load_settings (Some (Inr loaded))) = []
    \<and> (\<forall>c k dv. lookup_setting (as_document default_settings) c k = Some dv \<longrightarrow>
          (\<exists>v. lookup_setting (fst (load_settings (Some (Inr loaded)))) c k = Some v)
          \<and> (lookup_setting loaded c k = None \<longrightarrow>
               lookup_setting (fst (load_settings (Some (Inr loaded)))) c k = Some dv))
    \<and> (\<forall>c k v. lookup_setting loaded c k = Some v \<longrightarrow>
          lookup_setting (fst (load_settings (Some (Inr loaded)))) c k = Some v)
    \<and> (\<forall>c. c \<notin> fst ` set default_settings \<longrightarrow>
          lookup_category (fst (load_settings (Some (Inr loaded)))) c = lookup_category loaded c)"
proof -
  from assms obtain cats where loaded: "loaded = JObj cats"
    by (cases loaded) (simp_all add: settings_shaped_def)
  from assms have "\<forall>c \<in> fst ` set default_settings. \<forall>v. map_of cats c = Some v \<longrightarrow> is_obj v"
    by (auto simp: settings_shaped_def loaded list_all_iff split: option.splits)
  from merge_defaults_obj [OF default_categories_distinct this] obtain cats' where
    m: "merge_defaults (JObj cats) default_settings = Inr (JObj cats')"
    and l: "\<forall>c k. stored cats' c k =
                 (case stored cats c k of
                    Some v \<Rightarrow> Some v
                  | None \<Rightarrow> (case map_of default_settings c of
                               Some vals \<Rightarrow> map_of vals k | None \<Rightarrow> None))"
    and o: "\<forall>c. c \<notin> fst ` set default_settings \<longrightarrow> map_of cats' c = map_of cats c"
    by blast
  have eff: "load_settings (Some (Inr loaded)) = (JObj cats', [])"
    by (simp add: load_settings_def loaded m)
  have stored_eq: "\<And>xs c k. lookup_setting (JObj xs) c k = stored xs c k"
    by (simp add: lookup_setting_def lookup_category_def stored_def)
  have present: "\<exists>v. stored cats' c k = Some v"
    and backfilled: "stored cats c k = None \<longrightarrow> stored cats' c k = Some dv"
    if "lookup_setting (as_document default_settings) c k = Some dv" for c k dv
    using that l [rule_format, of c k]
    by (auto simp: lookup_setting_document split: option.splits)
  have kept: "stored cats' c k = Some v" if "stored cats c k = Some v" for c k v
    using that l [rule_format, of c k] by simp
  have unknown: "map_of cats' c = map_of cats c" if "c \<notin> fst ` set default_settings" for c
    using that o by blast
  show ?thesis
    unfolding eff fst_conv snd_conv
    using present backfilled kept unknown
    by (simp add: loaded stored_eq lookup_category_def)
qed

theorem load_settings_merge_witness:
  "settings_shaped sample_loaded
   \<and> lookup_setting (fst (load_settings (Some (Inr sample_loaded)))) (u ''colors'') (u ''background'')
       = Some (JStr (u ''white''))
   \<and> lookup_setting (fst (load_settings (Some (Inr sample_loaded)))) (u ''browser'') (u ''max_depth'')
       = Some (JInt 3)
   \<and> lookup_category (fst (load_settings (Some (Inr sample_loaded)))) (u ''plugins'')
       = Some (JObj [(u ''enabled'', JBool True)])"
proof -
  have shaped: "settings_shaped sample_loaded"
    by (simp add: settings_shaped_def sample_loaded_def default_settings_def is_obj_def u_def)
  note m = load_settings_merge [OF shaped]
  have dflt: "lookup_setting (as_document default_settings) (u ''colors'') (u ''background'')
                = Some (JStr (u ''white''))"
    by (simp add: lookup_setting_document default_settings_def u_def)
  have absent: "lookup_setting sample_loaded (u ''colors'') (u ''background'') = None"
    by (simp add: lookup_setting_def lookup_category_def sample_loaded_def u_def)
  have custom: "lookup_setting sample_loaded (u ''browser'') (u ''max_depth'') = Some (JInt 3)"
    by (simp add: lookup_setting_def lookup_category_def sample_loaded_def u_def)
  have own: "u ''plugins'' \<notin> fst ` set default_settings"
    by (simp add: default_settings_def u_def)
  have plugins: "lookup_category sample_loaded (u ''plugins'') = Some (JObj [(u ''enabled'', JBool True)])"
    by (simp add: lookup_category_def sample_loaded_def u_def)
  from m dflt absent have "lookup_setting (fst (load_settings (Some (Inr sample_loaded))))
        (u ''colors'') (u ''background'') = Some (JStr (u ''white''))"
    by blast
  moreover from m custom have "lookup_setting (fst (load_settings (Some (Inr sample_loaded))))
        (u ''browser'') (u ''max_depth'') = Some (JInt 3)"
    by blast
  moreover from m own plugins have "lookup_category (fst (load_settings (Some (Inr sample_loaded))))
        (u ''plugins'') = Some (JObj [(u ''enabled'', JBool True)])"
    by simp
  ultimately show ?thesis using shaped by blast
qed

text \<open>
  Outside that shape the merge raises: a category that is a number cannot be searched, the
  error is shown, and the defaults alone are returned.
\<close>

lemma load_settings_malformed_category:
  "load_settings (Some (Inr (JObj [(u ''colors'', JInt 5), (u ''plugins'', JObj [])])))
     = (as_document default_settings, [Dialog showerror (u ''Settings Error'') [Exc TypeError]])"
  by (simp add: load_settings_def default_settings_def u_def)

section \<open>Properties of the portable binary load\<close>

text \<open>
  C10. The portable-binary load rejects a zero-byte file with an error before it attempts
  any interpretation: for an empty file no interpretation is returned and the loaded
  objects are left unchanged, so the sniffing chain is only reached for non-empty byte
  sequences. For an empty file the whole state is unchanged, every dialog is an error, and
  the outcome does not depend on the library: no decoder is consulted.
\<close>

theorem load_object_binary_empty_file:
  assumes "files (fs st) (chosen_file U) = Some []"
  shows "snd (load_object_binary L U st) = st
     \<and> list_all (\<lambda>d. box_of d = showerror) (fst (load_object_binary L U st))
     \<and> (chosen_file U \<noteq> [] \<and> readable (fs st) (chosen_file U) \<longrightarrow>
          fst (load_object_binary L U st) = [Dialog showerror (u ''Empty File'') [Txt (chosen_file U)]])
     \<and> load_object_binary L' U st = load_object_binary L U st"
  using assms by (simp add: load_object_binary_def Let_def)

theorem load_object_binary_empty_file_witness:
  "files (fs (browser_on (disk_with (u ''empty.bin'') []))) (chosen_file (user_for (u ''empty.bin'') (u ''x''))) = Some []
   \<and> load_object_binary demo_lib (user_for (u ''empty.bin'') (u ''x'')) (browser_on (disk_with (u ''empty.bin'') []))
       = ([Dialog showerror (u ''Empty File'') [Txt (u ''empty.bin'')]], browser_on (disk_with (u ''empty.bin'') []))"
proof -
  have e: "files (fs (browser_on (disk_with (u ''empty.bin'') []))) (chosen_file (user_for (u ''empty.bin'') (u ''x''))) = Some []"
    by (simp add: browser_on_def disk_with_def user_for_def)
  have r: "chosen_file (user_for (u ''empty.bin'') (u ''x'')) \<noteq> []
      \<and> readable (fs (browser_on (disk_with (u ''empty.bin'') []))) (chosen_file (user_for (u ''empty.bin'') (u ''x'')))"
    by (simp add: browser_on_def disk_with_def user_for_def u_def)
  have c: "chosen_file (user_for (u ''empty.bin'') (u ''x'')) = u ''empty.bin''"
    by (simp add: user_for_def)
  from load_object_binary_empty_file [OF e, of demo_lib demo_lib] r c
  have "snd (load_object_binary demo_lib (user_for (u ''empty.bin'') (u ''x'')) (browser_on (disk_with (u ''empty.bin'') [])))
          = browser_on (disk_with (u ''empty.bin'') [])"
    and "fst (load_object_binary demo_lib (user_for (u ''empty.bin'') (u ''x'')) (browser_on (disk_with (u ''empty.bin'') [])))
          = [Dialog showerror (u ''Empty File'') [Txt (u ''empty.bin'')]]"
    by simp_all
  then show ?thesis using e by (simp add: prod_eq_iff)
qed

text \<open>
  C2. For every byte buffer that is valid pickle output, the portable-binary load chain
  reports the interpretation \<open>Python pickle\<close> and never falls through to the JSON, UTF-8
  or raw-bytes steps. The buffer \<open>pickle.dumps(None)\<close> is valid pickle output, and the
  chain decodes it; but the later steps test \<open>loaded_obj is None\<close>, take the decoded
  \<open>None\<close> for "nothing loaded yet", and run: the load reports raw bytes.
\<close>

theorem pickled_none_falls_through:
  "pickle_dumps demo_lib empty_heap PyNone None = Inr pickled_none
   \<and> pickle_loads demo_lib empty_heap pickled_none = Inr (PyNone, empty_heap)
   \<and> interp (interpret_bytes demo_lib empty_heap pickled_none) = u ''raw bytes''
   \<and> loaded_obj (interpret_bytes demo_lib empty_heap pickled_none) = PyBytes pickled_none
   \<and> attempts (interpret_bytes demo_lib empty_heap pickled_none)
       = [u ''JSON: UnicodeDecodeError'', u ''UTF-8: UnicodeDecodeError'']"
  by (simp add: interpret_bytes_def try_pickle_def try_json_def try_text_def keep_raw_def
        demo_lib_sel demo_pickle_loads_def demo_pickle_dumps_def demo_utf8_decode_def
        pickled_none_def u_def)

text \<open>When the decoded object is not \<open>None\<close> the chain stops at step 1; a decoded \<open>None\<close> never does.\<close>

lemma pickle_not_none_wins:
  assumes "pickle_loads L h data = Inr (v, h')" and "v \<noteq> PyNone"
  shows "interpret_bytes L h data =
           \<lparr>loaded_obj = v, interp = u ''Python pickle'', attempts = [], new_heap = h'\<rparr>"
  using assms
  by (simp add: interpret_bytes_def try_pickle_def try_json_def try_text_def keep_raw_def)

lemma pickle_none_never_reported:
  assumes "pickle_loads L h data = Inr (PyNone, h')"
  shows "interp (interpret_bytes L h data) \<noteq> u ''Python pickle''"
  using assms
  by (auto simp: interpret_bytes_def try_pickle_def try_json_def try_text_def keep_raw_def u_def
        split: sum.splits)

lemma interp_labels_distinct:
  "u ''unknown'' \<noteq> u ''raw bytes''" "u ''Python pickle'' \<noteq> u ''raw bytes''"
  "u ''JSON'' \<noteq> u ''raw bytes''" "u ''UTF-8 text'' \<noteq> u ''raw bytes''"
  by (simp_all add: u_def)

text \<open>
  C3. For any byte sequence handed to the portable-binary load chain some interpretation
  is returned (pickle, JSON, UTF-8 text or, in the worst case, the raw byte sequence
  unmodified), so the chain itself never fails, and every attempted-and-failed step is
  recorded as diagnostic context. \<open>interpret_bytes\<close> is total and its result is never the
  \<open>None\<close> it starts from. What it returns is fixed case by case: the object of the pickle
  decoder when that is not \<open>None\<close>; else the object of the JSON parser, when the bytes
  decode and that is not \<open>None\<close>; else the decoded text; else, when the bytes do not even
  decode, the byte sequence itself. In each case \<open>attempts\<close> holds exactly the entries of
  the steps that raised, in order, and a completed load stores the object and shows the
  entries in its message.
\<close>

theorem interpret_bytes_total:
  "(interp (interpret_bytes L h data)
      \<in> {u ''Python pickle'', u ''JSON'', u ''UTF-8 text'', u ''raw bytes''})
   \<and> (loaded_obj (interpret_bytes L h data) \<noteq> PyNone)
   \<and> (interp (interpret_bytes L h data) = u ''raw bytes'' \<longrightarrow>
         loaded_obj (interpret_bytes L h data) = PyBytes data)
   \<and> (\<forall>e. pickle_loads L h data = Inl e \<longrightarrow>
         u ''Pickle: '' @ exn_name e \<in> set (attempts (interpret_bytes L h data)))
   \<and> (\<forall>e. pickle_gave_nothing L h data \<and> utf8_decode L data = Inl e \<longrightarrow>
         u ''JSON: '' @ exn_name e \<in> set (attempts (interpret_bytes L h data))
         \<and> u ''UTF-8: '' @ exn_name e \<in> set (attempts (interpret_bytes L h data)))
   \<and> (\<forall>e t. pickle_gave_nothing L h data \<and> utf8_decode L data = Inr t
            \<and> json_loads L (heap_after_pickle L h data) t = Inl e \<longrightarrow>
         u ''JSON: '' @ exn_name e \<in> set (attempts (interpret_bytes L h data)))
   \<and> (\<forall>v h'. pickle_loads L h data = Inr (v, h') \<and> v \<noteq> PyNone \<longrightarrow>
         interpret_bytes L h data
           = \<lparr>loaded_obj = v, interp = u ''Python pickle'', attempts = [], new_heap = h'\<rparr>)
   \<and> (\<forall>t v h'. pickle_gave_nothing L h data \<and> utf8_decode L data = Inr t
            \<and> json_loads L (heap_after_pickle L h data) t = Inr (v, h') \<and> v \<noteq> PyNone \<longrightarrow>
         interpret_bytes L h data
           = \<lparr>loaded_obj = v, interp = u ''JSON'', attempts = pickle_attempt L h data,
              new_heap = h'\<rparr>)
   \<and> (\<forall>t e. pickle_gave_nothing L h data \<and> utf8_decode L data = Inr t
            \<and> json_loads L (heap_after_pickle L h data) t = Inl e \<longrightarrow>
         interpret_bytes L h data
           = \<lparr>loaded_obj = PyStr t, interp = u ''UTF-8 text'',
              attempts = pickle_attempt L h data @ [u ''JSON: '' @ exn_name e],
              new_heap = heap_after_pickle L h data\<rparr>)
   \<and> (\<forall>t h'. pickle_gave_nothing L h data \<and> utf8_decode L data = Inr t
            \<and> json_loads L (heap_after_pickle L h data) t = Inr (PyNone, h') \<longrightarrow>
         interpret_bytes L h data
           = \<lparr>loaded_obj = PyStr t, interp = u ''UTF-8 text'',
              attempts = pickle_attempt L h data, new_heap = h'\<rparr>)
   \<and> (\<forall>e. pickle_gave_nothing L h data \<and> utf8_decode L data = Inl e \<longrightarrow>
         interpret_bytes L h data
           = \<lparr>loaded_obj = PyBytes data, interp = u ''raw bytes'',
              attempts = pickle_attempt L h data
                @ [u ''JSON: '' @ exn_name e, u ''UTF-8: '' @ exn_name e],
              new_heap = heap_after_pickle L h data\<rparr>)
   \<and> (chosen_file U \<noteq> [] \<and> files (fs st) (chosen_file U) = Some data
        \<and> readable (fs st) (chosen_file U) \<and> data \<noteq> []
        \<and> (length data \<le> large_file_limit \<or> continue_large U)
        \<and> entered_name (object_name U) = Some name
        \<and> (name \<notin> fst ` set (loaded_objects st) \<or> overwrite U) \<longrightarrow>
       map_of (loaded_objects (snd (load_object_binary L U st))) name
         = Some (loaded_obj (interpret_bytes L (heap st) data))
       \<and> last (fst (load_object_binary L U st))
         = Dialog showinfo ([0x2713] @ u '' Binary Loaded'')
             ([Txt name, Txt (interp (interpret_bytes L (heap st) data)),
               Txt (type_name (new_heap (interpret_bytes L (heap st) data))
                      (loaded_obj (interpret_bytes L (heap st) data))),
               Num (length data)]
              @ (if attempts (interpret_bytes L (heap st) data) \<noteq> []
                 then [Txt (u ''Attempted: ''
                            @ join_comma (attempts (interpret_bytes L (heap st) data)))]
                 else [])))"
proof -
  have lab: "interp (interpret_bytes L h data)
      \<in> {u ''Python pickle'', u ''JSON'', u ''UTF-8 text'', u ''raw bytes''}"
    by (auto simp: interpret_bytes_def try_pickle_def try_json_def try_text_def keep_raw_def
          split: sum.splits)
  have nonnone: "loaded_obj (interpret_bytes L h data) \<noteq> PyNone"
    by (auto simp: interpret_bytes_def try_pickle_def try_json_def try_text_def keep_raw_def
          split: sum.splits)
  have rawd: "interp (interpret_bytes L h data) = u ''raw bytes'' \<longrightarrow>
         loaded_obj (interpret_bytes L h data) = PyBytes data"
    by (auto simp: interpret_bytes_def try_pickle_def try_json_def try_text_def keep_raw_def
          interp_labels_distinct split: sum.splits)
  have rec1: "\<forall>e. pickle_loads L h data = Inl e \<longrightarrow>
         u ''Pickle: '' @ exn_name e \<in> set (attempts (interpret_bytes L h data))"
    by (auto simp: interpret_bytes_def try_pickle_def try_json_def try_text_def keep_raw_def
          split: sum.splits)
  have rec2: "\<forall>e. pickle_gave_nothing L h data \<and> utf8_decode L data = Inl e \<longrightarrow>
         u ''JSON: '' @ exn_name e \<in> set (attempts (interpret_bytes L h data))
         \<and> u ''UTF-8: '' @ exn_name e \<in> set (attempts (interpret_bytes L h data))"
    by (auto simp: interpret_bytes_def try_pickle_def try_json_def try_text_def keep_raw_def
          pickle_gave_nothing_def split: sum.splits)
  have rec3: "\<forall>e t. pickle_gave_nothing L h data \<and> utf8_decode L data = Inr t
            \<and> json_loads L (heap_after_pickle L h data) t = Inl e \<longrightarrow>
         u ''JSON: '' @ exn_name e \<in> set (attempts (interpret_bytes L h data))"
    by (auto simp: interpret_bytes_def try_pickle_def try_json_def try_text_def keep_raw_def
          pickle_gave_nothing_def heap_after_pickle_def split: sum.splits)
  have won: "\<forall>v h'. pickle_loads L h data = Inr (v, h') \<and> v \<noteq> PyNone \<longrightarrow>
         interpret_bytes L h data
           = \<lparr>loaded_obj = v, interp = u ''Python pickle'', attempts = [], new_heap = h'\<rparr>"
    by (simp add: interpret_bytes_def try_pickle_def try_json_def try_text_def keep_raw_def)
  have as_json: "\<forall>t v h'. pickle_gave_nothing L h data \<and> utf8_decode L data = Inr t
            \<and> json_loads L (heap_after_pickle L h data) t = Inr (v, h') \<and> v \<noteq> PyNone \<longrightarrow>
         interpret_bytes L h data
           = \<lparr>loaded_obj = v, interp = u ''JSON'', attempts = pickle_attempt L h data,
              new_heap = h'\<rparr>"
    by (auto simp: interpret_bytes_def try_pickle_def try_json_def try_text_def keep_raw_def
          pickle_gave_nothing_def heap_after_pickle_def pickle_attempt_def split: sum.splits)
  have as_text: "\<forall>t e. pickle_gave_nothing L h data \<and> utf8_decode L data = Inr t
            \<and> json_loads L (heap_after_pickle L h data) t = Inl e \<longrightarrow>
         interpret_bytes L h data
           = \<lparr>loaded_obj = PyStr t, interp = u ''UTF-8 text'',
              attempts = pickle_attempt L h data @ [u ''JSON: '' @ exn_name e],
              new_heap = heap_after_pickle L h data\<rparr>"
    by (auto simp: interpret_bytes_def try_pickle_def try_json_def try_text_def keep_raw_def
          pickle_gave_nothing_def heap_after_pickle_def pickle_attempt_def split: sum.splits)
  have as_text_none: "\<forall>t h'. pickle_gave_nothing L h data \<and> utf8_decode L data = Inr t
            \<and> json_loads L (heap_after_pickle L h data) t = Inr (PyNone, h') \<longrightarrow>
         interpret_bytes L h data
           = \<lparr>loaded_obj = PyStr t, interp = u ''UTF-8 text'',
              attempts = pickle_attempt L h data, new_heap = h'\<rparr>"
    by (auto simp: interpret_bytes_def try_pickle_def try_json_def try_text_def keep_raw_def
          pickle_gave_nothing_def heap_after_pickle_def pickle_attempt_def split: sum.splits)
  have as_raw: "\<forall>e. pickle_gave_nothing L h data \<and> utf8_decode L data = Inl e \<longrightarrow>
         interpret_bytes L h data
           = \<lparr>loaded_obj = PyBytes data, interp = u ''raw bytes'',
              attempts = pickle_attempt L h data
                @ [u ''JSON: '' @ exn_name e, u ''UTF-8: '' @ exn_name e],
              new_heap = heap_after_pickle L h data\<rparr>"
    by (auto simp: interpret_bytes_def try_pickle_def try_json_def try_text_def keep_raw_def
          pickle_gave_nothing_def heap_after_pickle_def pickle_attempt_def split: sum.splits)
  have surf: "chosen_file U \<noteq> [] \<and> files (fs st) (chosen_file U) = Some data
        \<and> readable (fs st) (chosen_file U) \<and> data \<noteq> []
        \<and> (length data \<le> large_file_limit \<or> continue_large U)
        \<and> entered_name (object_name U) = Some name
        \<and> (name \<notin> fst ` set (loaded_objects st) \<or> overwrite U) \<longrightarrow>
       map_of (loaded_objects (snd (load_object_binary L U st))) name
         = Some (loaded_obj (interpret_bytes L (heap st) data))
       \<and> last (fst (load_object_binary L U st))
         = Dialog showinfo ([0x2713] @ u '' Binary Loaded'')
             ([Txt name, Txt (interp (interpret_bytes L (heap st) data)),
               Txt (type_name (new_heap (interpret_bytes L (heap st) data))
                      (loaded_obj (interpret_bytes L (heap st) data))),
               Num (length data)]
              @ (if attempts (interpret_bytes L (heap st) data) \<noteq> []
                 then [Txt (u ''Attempted: ''
                            @ join_comma (attempts (interpret_bytes L (heap st) data)))]
                 else []))"
    by (auto simp: load_object_binary_def Let_def binary_loaded_info_def update_conv')
  show ?thesis
    by (intro conjI) (fact lab nonnone rawd rec1 rec2 rec3 won as_json as_text as_text_none as_raw surf)+
qed

theorem interpret_bytes_total_witness:
  "pickle_loads demo_lib empty_heap [0xFF] = Inl UnpicklingError
   \<and> utf8_decode demo_lib [0xFF] = Inl UnicodeDecodeError
   \<and> u ''Pickle: '' @ exn_name UnpicklingError \<in> set (attempts (interpret_bytes demo_lib empty_heap [0xFF]))
   \<and> interpret_bytes demo_lib empty_heap [0xFF]
       = \<lparr>loaded_obj = PyBytes [0xFF], interp = u ''raw bytes'',
          attempts = [u ''Pickle: UnpicklingError'', u ''JSON: UnicodeDecodeError'',
                      u ''UTF-8: UnicodeDecodeError''],
          new_heap = empty_heap\<rparr>
   \<and> utf8_decode demo_lib [0x68, 0x69] = Inr (u ''hi'')
   \<and> json_loads demo_lib empty_heap (u ''hi'') = Inl JSONDecodeError
   \<and> interpret_bytes demo_lib empty_heap [0x68, 0x69]
       = \<lparr>loaded_obj = PyStr (u ''hi''), interp = u ''UTF-8 text'',
          attempts = [u ''Pickle: UnpicklingError'', u ''JSON: JSONDecodeError''],
          new_heap = empty_heap\<rparr>
   \<and> json_loads demo_lib empty_heap (u ''42'') = Inr (PyInt 42, empty_heap)
   \<and> interpret_bytes demo_lib empty_heap [0x34, 0x32]
       = \<lparr>loaded_obj = PyInt 42, interp = u ''JSON'',
          attempts = [u ''Pickle: UnpicklingError''], new_heap = empty_heap\<rparr>
   \<and> map_of (loaded_objects (snd (load_object_binary demo_lib (user_for (u ''blob.bin'') (u ''blob''))
                (browser_on (disk_with (u ''blob.bin'') [0xFF]))))) (u ''blob'')
       = Some (loaded_obj (interpret_bytes demo_lib empty_heap [0xFF]))"
proof -
  have p: "pickle_loads demo_lib empty_heap [0xFF] = Inl UnpicklingError"
    and p2: "pickle_loads demo_lib empty_heap [0x68, 0x69] = Inl UnpicklingError"
    and p3: "pickle_loads demo_lib empty_heap [0x34, 0x32] = Inl UnpicklingError"
    by (simp_all add: demo_lib_sel demo_pickle_loads_def)
  have d: "utf8_decode demo_lib [0xFF] = Inl UnicodeDecodeError"
    by (simp add: demo_lib_sel demo_utf8_decode_def)
  have d2: "utf8_decode demo_lib [0x68, 0x69] = Inr (u ''hi'')"
    by (simp add: demo_lib_sel demo_utf8_decode_def u_def)
  have d3: "utf8_decode demo_lib [0x34, 0x32] = Inr (u ''42'')"
    by (simp add: demo_lib_sel demo_utf8_decode_def u_def)
  have j2: "json_loads demo_lib empty_heap (u ''hi'') = Inl JSONDecodeError"
    by (simp add: demo_lib_sel demo_json_loads_def parse_json_int_def u_def)
  have j3: "json_loads demo_lib empty_heap (u ''42'') = Inr (PyInt 42, empty_heap)"
    by (simp add: demo_lib_sel demo_json_loads_def parse_json_int_def u_def)
  have g: "pickle_gave_nothing demo_lib empty_heap [0xFF]"
    and g2: "pickle_gave_nothing demo_lib empty_heap [0x68, 0x69]"
    and g3: "pickle_gave_nothing demo_lib empty_heap [0x34, 0x32]"
    by (simp_all add: pickle_gave_nothing_def p p2 p3)
  have ha: "heap_after_pickle demo_lib empty_heap [0xFF] = empty_heap"
    "heap_after_pickle demo_lib empty_heap [0x68, 0x69] = empty_heap"
    "heap_after_pickle demo_lib empty_heap [0x34, 0x32] = empty_heap"
    by (simp_all add: heap_after_pickle_def p p2 p3)
  have pa: "pickle_attempt demo_lib empty_heap [0xFF] = [u ''Pickle: UnpicklingError'']"
    "pickle_attempt demo_lib empty_heap [0x68, 0x69] = [u ''Pickle: UnpicklingError'']"
    "pickle_attempt demo_lib empty_heap [0x34, 0x32] = [u ''Pickle: UnpicklingError'']"
    by (simp_all add: pickle_attempt_def p p2 p3 u_def)
  have names: "u ''JSON: '' @ exn_name UnicodeDecodeError = u ''JSON: UnicodeDecodeError''"
    "u ''UTF-8: '' @ exn_name UnicodeDecodeError = u ''UTF-8: UnicodeDecodeError''"
    "u ''JSON: '' @ exn_name JSONDecodeError = u ''JSON: JSONDecodeError''"
    by (simp_all add: u_def)
  have j2': "json_loads demo_lib (heap_after_pickle demo_lib empty_heap [0x68, 0x69]) (u ''hi'')
               = Inl JSONDecodeError"
    by (simp add: ha j2)
  have j3': "json_loads demo_lib (heap_after_pickle demo_lib empty_heap [0x34, 0x32]) (u ''42'')
               = Inr (PyInt 42, empty_heap)"
    by (simp add: ha j3)
  have pre: "chosen_file (user_for (u ''blob.bin'') (u ''blob'')) \<noteq> []
     \<and> files (fs (browser_on (disk_with (u ''blob.bin'') [0xFF])))
          (chosen_file (user_for (u ''blob.bin'') (u ''blob''))) = Some [0xFF]
     \<and> readable (fs (browser_on (disk_with (u ''blob.bin'') [0xFF])))
          (chosen_file (user_for (u ''blob.bin'') (u ''blob'')))
     \<and> [0xFF::byte] \<noteq> []
     \<and> (length [0xFF::byte] \<le> large_file_limit \<or> continue_large (user_for (u ''blob.bin'') (u ''blob'')))
     \<and> entered_name (object_name (user_for (u ''blob.bin'') (u ''blob''))) = Some (u ''blob'')
     \<and> (u ''blob'' \<notin> fst ` set (loaded_objects (browser_on (disk_with (u ''blob.bin'') [0xFF])))
          \<or> overwrite (user_for (u ''blob.bin'') (u ''blob'')))"
    by (simp add: user_for_def browser_on_def disk_with_def large_file_limit_def
          entered_name_def u_def)
  have hp: "heap (browser_on (disk_with (u ''blob.bin'') [0xFF])) = empty_heap"
    by (simp add: browser_on_def)
  note t1 = interpret_bytes_total [where L = demo_lib and h = empty_heap and data = "[0xFF]"
              and U = "user_for (u ''blob.bin'') (u ''blob'')"
              and st = "browser_on (disk_with (u ''blob.bin'') [0xFF])" and name = "u ''blob''"]
  note t2 = interpret_bytes_total [where L = demo_lib and h = empty_heap and data = "[0x68, 0x69]"
              and U = "user_for (u ''blob.bin'') (u ''blob'')"
              and st = "browser_on (disk_with (u ''blob.bin'') [0xFF])" and name = "u ''blob''"]
  note t3 = interpret_bytes_total [where L = demo_lib and h = empty_heap and data = "[0x34, 0x32]"
              and U = "user_for (u ''blob.bin'') (u ''blob'')"
              and st = "browser_on (disk_with (u ''blob.bin'') [0xFF])" and name = "u ''blob''"]
  note a1 = t1 [THEN conjunct2, THEN conjunct2, THEN conjunct2, THEN conjunct1, rule_format, OF p]
  have r1: "interpret_bytes demo_lib empty_heap [0xFF]
       = \<lparr>loaded_obj = PyBytes [0xFF], interp = u ''raw bytes'',
          attempts = [u ''Pickle: UnpicklingError'', u ''JSON: UnicodeDecodeError'',
                      u ''UTF-8: UnicodeDecodeError''],
          new_heap = empty_heap\<rparr>"
    using t1 [THEN conjunct2, THEN conjunct2, THEN conjunct2, THEN conjunct2, THEN conjunct2, THEN conjunct2, THEN conjunct2, THEN conjunct2, THEN conjunct2, THEN conjunct2, THEN conjunct1, rule_format, OF conjI [OF g d]]
    by (simp add: pa ha u_def)
  have r2: "interpret_bytes demo_lib empty_heap [0x68, 0x69]
       = \<lparr>loaded_obj = PyStr (u ''hi''), interp = u ''UTF-8 text'',
          attempts = [u ''Pickle: UnpicklingError'', u ''JSON: JSONDecodeError''],
          new_heap = empty_heap\<rparr>"
    using t2 [THEN conjunct2, THEN conjunct2, THEN conjunct2, THEN conjunct2, THEN conjunct2, THEN conjunct2, THEN conjunct2, THEN conjunct2, THEN conjunct1, rule_format, OF conjI [OF g2 conjI [OF d2 j2']]]
    by (simp add: pa ha u_def)
  have n42: "PyInt 42 \<noteq> PyNone" by simp
  have r3: "interpret_bytes demo_lib empty_heap [0x34, 0x32]
       = \<lparr>loaded_obj = PyInt 42, interp = u ''JSON'',
          attempts = [u ''Pickle: UnpicklingError''], new_heap = empty_heap\<rparr>"
    using t3 [THEN conjunct2, THEN conjunct2, THEN conjunct2, THEN conjunct2, THEN conjunct2, THEN conjunct2, THEN conjunct2, THEN conjunct1, rule_format, OF conjI [OF g3 conjI [OF d3 conjI [OF j3' n42]]]]
    by (simp add: pa)
  have st: "map_of (loaded_objects (snd (load_object_binary demo_lib (user_for (u ''blob.bin'') (u ''blob''))
                (browser_on (disk_with (u ''blob.bin'') [0xFF]))))) (u ''blob'')
       = Some (loaded_obj (interpret_bytes demo_lib empty_heap [0xFF]))"
    using t1 [THEN conjunct2, THEN conjunct2, THEN conjunct2, THEN conjunct2, THEN conjunct2, THEN conjunct2, THEN conjunct2, THEN conjunct2, THEN conjunct2, THEN conjunct2, THEN conjunct2, THEN mp, OF pre, THEN conjunct1]
    by (simp add: hp)
  show ?thesis
    by (intro conjI) (fact p d a1 r1 d2 j2 r2 j3 r3 st)+
qed

section \<open>Properties of the save paths\<close>

lemma save_python_handler_box: "box_of (save_python_handler e) = showerror"
  by (simp add: save_python_handler_def)

text \<open>
  C5. Save on the native serialization path first serializes the value to an in-memory
  buffer without touching the disk; if serialization raises, the save is aborted with a
  reported error and no file is written (no truncated or partially written output ever
  exists), and on success the identical buffer is written verbatim to the file. The part
  in brackets fails: the file is written in place, so when serialization succeeds and the
  write then breaks off, the older \<open>five.pkl\<close> is gone and a truncated one is left, two
  bytes of the five-byte buffer.
\<close>

theorem failed_write_leaves_truncated_file:
  "pickle_dumps demo_lib (heap failing_disk_state) (current_object failing_disk_state)
       (Some (highest_protocol demo_lib)) = Inr [0x80, 0x05, 0x4B, 0x05, 0x2E]
   \<and> files (fs failing_disk_state) (u ''five.pkl'') = Some [0x01, 0x02, 0x03]
   \<and> files (fs (snd (save_object_python demo_lib (keen_user (u ''five.pkl'')) failing_disk_state)))
        (u ''five.pkl'') = Some [0x80, 0x05]
   \<and> fst (save_object_python demo_lib (keen_user (u ''five.pkl'')) failing_disk_state)
       = [Dialog showerror (u ''File Write Error'') [Exc OSError]]"
  by (simp add: save_object_python_def Let_def failing_disk_state_def failing_disk_def
        browser_on_def keen_user_def demo_lib_sel demo_pickle_dumps_def write_file_def u_def)

text \<open>
  C5, as amended. Save on the native serialization path first serializes the value to an
  in-memory buffer without touching the disk. If serialization raises, the save is aborted
  with a reported error and the disk is unchanged. If it succeeds, the chosen file is
  opened for writing and the identical buffer written verbatim: a refused open is reported
  and changes nothing; a write that goes through leaves exactly the buffer in the file; a
  write that breaks off is reported and leaves a leading part of the buffer there. No
  other file changes, and the chosen one never holds anything but a leading part of the
  buffer.
\<close>

theorem save_object_python_writes:
  "(\<forall>e. pickle_dumps L (heap st) (current_object st) (Some (highest_protocol L)) = Inl e \<longrightarrow>
       snd (save_object_python L U st) = st
       \<and> (reaches_dumps U st \<longrightarrow>
            fst (save_object_python L U st) \<noteq> []
            \<and> box_of (last (fst (save_object_python L U st))) = showerror))
   \<and> (\<forall>b. pickle_dumps L (heap st) (current_object st) (Some (highest_protocol L)) = Inr b
          \<and> reaches_dumps U st \<and> writable (fs st) (chosen_file U) \<longrightarrow>
       snd (save_object_python L U st)
         = st\<lparr>fs := (fs st)\<lparr>files := (files (fs st))(chosen_file U \<mapsto> b)\<rparr>\<rparr>
       \<and> box_of (last (fst (save_object_python L U st))) = showinfo)
   \<and> (\<forall>b. pickle_dumps L (heap st) (current_object st) (Some (highest_protocol L)) = Inr b
          \<and> reaches_dumps U st \<and> on_write (fs st) (chosen_file U) = Refused \<longrightarrow>
       snd (save_object_python L U st) = st
       \<and> box_of (last (fst (save_object_python L U st))) = showerror)
   \<and> (\<forall>b n. pickle_dumps L (heap st) (current_object st) (Some (highest_protocol L)) = Inr b
          \<and> reaches_dumps U st \<and> on_write (fs st) (chosen_file U) = Breaks n \<longrightarrow>
       snd (save_object_python L U st)
         = st\<lparr>fs := (fs st)\<lparr>files := (files (fs st))(chosen_file U \<mapsto> take n b)\<rparr>\<rparr>
       \<and> box_of (last (fst (save_object_python L U st))) = showerror)
   \<and> (\<forall>f. files (fs (snd (save_object_python L U st))) f = files (fs st) f
          \<or> (f = chosen_file U
              \<and> (\<exists>b n. pickle_dumps L (heap st) (current_object st) (Some (highest_protocol L)) = Inr b
                      \<and> files (fs (snd (save_object_python L U st))) f = Some (take n b))))"
proof -
  have a: "\<forall>e. pickle_dumps L (heap st) (current_object st) (Some (highest_protocol L)) = Inl e \<longrightarrow>
       snd (save_object_python L U st) = st
       \<and> (reaches_dumps U st \<longrightarrow>
            fst (save_object_python L U st) \<noteq> []
            \<and> box_of (last (fst (save_object_python L U st))) = showerror)"
    by (auto simp: save_object_python_def Let_def reaches_dumps_def save_python_handler_box)
  have b: "\<forall>b. pickle_dumps L (heap st) (current_object st) (Some (highest_protocol L)) = Inr b
          \<and> reaches_dumps U st \<and> writable (fs st) (chosen_file U) \<longrightarrow>
       snd (save_object_python L U st)
         = st\<lparr>fs := (fs st)\<lparr>files := (files (fs st))(chosen_file U \<mapsto> b)\<rparr>\<rparr>
       \<and> box_of (last (fst (save_object_python L U st))) = showinfo"
    by (auto simp: save_object_python_def Let_def reaches_dumps_def write_file_def writable_def)
  have c: "\<forall>b. pickle_dumps L (heap st) (current_object st) (Some (highest_protocol L)) = Inr b
          \<and> reaches_dumps U st \<and> on_write (fs st) (chosen_file U) = Refused \<longrightarrow>
       snd (save_object_python L U st) = st
       \<and> box_of (last (fst (save_object_python L U st))) = showerror"
    by (auto simp: save_object_python_def Let_def reaches_dumps_def write_file_def)
  have d: "\<forall>b n. pickle_dumps L (heap st) (current_object st) (Some (highest_protocol L)) = Inr b
          \<and> reaches_dumps U st \<and> on_write (fs st) (chosen_file U) = Breaks n \<longrightarrow>
       snd (save_object_python L U st)
         = st\<lparr>fs := (fs st)\<lparr>files := (files (fs st))(chosen_file U \<mapsto> take n b)\<rparr>\<rparr>
       \<and> box_of (last (fst (save_object_python L U st))) = showerror"
    by (auto simp: save_object_python_def Let_def reaches_dumps_def write_file_def)
  have e: "\<forall>f. files (fs (snd (save_object_python L U st))) f = files (fs st) f
          \<or> (f = chosen_file U
              \<and> (\<exists>b n. pickle_dumps L (heap st) (current_object st) (Some (highest_protocol L)) = Inr b
                      \<and> files (fs (snd (save_object_python L U st))) f = Some (take n b)))"
  proof
    fix f
    show "files (fs (snd (save_object_python L U st))) f = files (fs st) f
          \<or> (f = chosen_file U
              \<and> (\<exists>b n. pickle_dumps L (heap st) (current_object st) (Some (highest_protocol L)) = Inr b
                      \<and> files (fs (snd (save_object_python L U st))) f = Some (take n b)))"
    proof (cases "pickle_dumps L (heap st) (current_object st) (Some (highest_protocol L))")
      case (Inl x)
      with a show ?thesis by simp
    next
      case (Inr buf)
      show ?thesis
      proof (cases "on_write (fs st) (chosen_file U)")
        case Refused
        then show ?thesis
          by (simp add: save_object_python_def Let_def write_file_def Inr)
      next
        case (Breaks n)
        have "files (fs (snd (save_object_python L U st))) f = files (fs st) f
              \<or> (f = chosen_file U
                  \<and> files (fs (snd (save_object_python L U st))) f = Some (take n buf))"
          by (auto simp: save_object_python_def Let_def write_file_def Inr Breaks)
        with Inr show ?thesis by blast
      next
        case Completes
        have "files (fs (snd (save_object_python L U st))) f = files (fs st) f
              \<or> (f = chosen_file U
                  \<and> files (fs (snd (save_object_python L U st))) f
                      = Some (take (length buf) buf))"
          by (auto simp: save_object_python_def Let_def write_file_def Inr Completes)
        with Inr show ?thesis by blast
      qed
    qed
  qed
  show ?thesis
    by (intro conjI) (fact a b c d e)+
qed

theorem save_object_python_writes_witness:
  "pickle_dumps demo_lib (heap five_state) (current_object five_state)
       (Some (highest_protocol demo_lib)) = Inr [0x80, 0x05, 0x4B, 0x05, 0x2E]
   \<and> reaches_dumps (keen_user (u ''five.pkl'')) five_state
   \<and> writable (fs five_state) (chosen_file (keen_user (u ''five.pkl'')))
   \<and> files (fs (snd (save_object_python demo_lib (keen_user (u ''five.pkl'')) five_state)))
        (u ''five.pkl'') = Some [0x80, 0x05, 0x4B, 0x05, 0x2E]
   \<and> pickle_dumps demo_lib (heap panel_state) (current_object panel_state)
       (Some (highest_protocol demo_lib)) = Inl TypeError
   \<and> reaches_dumps (keen_user (u ''panel.pkl'')) panel_state
   \<and> snd (save_object_python demo_lib (keen_user (u ''panel.pkl'')) panel_state) = panel_state
   \<and> box_of (last (fst (save_object_python demo_lib (keen_user (u ''panel.pkl'')) panel_state)))
       = showerror
   \<and> on_write (fs failing_disk_state) (chosen_file (keen_user (u ''five.pkl''))) = Breaks 2
   \<and> files (fs (snd (save_object_python demo_lib (keen_user (u ''five.pkl'')) failing_disk_state)))
        (u ''five.pkl'') = Some (take 2 [0x80, 0x05, 0x4B, 0x05, 0x2E])"
proof -
  have d5: "pickle_dumps demo_lib (heap five_state) (current_object five_state)
       (Some (highest_protocol demo_lib)) = Inr [0x80, 0x05, 0x4B, 0x05, 0x2E]"
    by (simp add: five_state_def browser_on_def demo_lib_sel demo_pickle_dumps_def)
  have r5: "reaches_dumps (keen_user (u ''five.pkl'')) five_state"
    by (simp add: reaches_dumps_def five_state_def browser_on_def keen_user_def u_def)
  have w5: "writable (fs five_state) (chosen_file (keen_user (u ''five.pkl'')))"
    by (simp add: five_state_def browser_on_def empty_disk_def writable_def)
  have c5: "chosen_file (keen_user (u ''five.pkl'')) = u ''five.pkl''"
    by (simp add: keen_user_def)
  have dp: "pickle_dumps demo_lib (heap panel_state) (current_object panel_state)
       (Some (highest_protocol demo_lib)) = Inl TypeError"
    by (simp add: panel_state_def browser_on_def demo_lib_sel demo_pickle_dumps_def panel_heap_def)
  have rp: "reaches_dumps (keen_user (u ''panel.pkl'')) panel_state"
    by (simp add: reaches_dumps_def panel_state_def browser_on_def keen_user_def panel_heap_def
          u_def)
  have df: "pickle_dumps demo_lib (heap failing_disk_state) (current_object failing_disk_state)
       (Some (highest_protocol demo_lib)) = Inr [0x80, 0x05, 0x4B, 0x05, 0x2E]"
    by (simp add: failing_disk_state_def browser_on_def demo_lib_sel demo_pickle_dumps_def)
  have rf: "reaches_dumps (keen_user (u ''five.pkl'')) failing_disk_state"
    by (simp add: reaches_dumps_def failing_disk_state_def browser_on_def keen_user_def u_def)
  have wf: "on_write (fs failing_disk_state) (chosen_file (keen_user (u ''five.pkl''))) = Breaks 2"
    by (simp add: failing_disk_state_def browser_on_def failing_disk_def)
  note t5 = save_object_python_writes [where L = demo_lib and st = five_state
              and U = "keen_user (u ''five.pkl'')"]
  note tp = save_object_python_writes [where L = demo_lib and st = panel_state
              and U = "keen_user (u ''panel.pkl'')"]
  note tf = save_object_python_writes [where L = demo_lib and st = failing_disk_state
              and U = "keen_user (u ''five.pkl'')"]
  note s5 = t5 [THEN conjunct2, THEN conjunct1, rule_format, OF conjI [OF d5 conjI [OF r5 w5]],
                THEN conjunct1]
  have f5: "files (fs (snd (save_object_python demo_lib (keen_user (u ''five.pkl'')) five_state)))
        (u ''five.pkl'') = Some [0x80, 0x05, 0x4B, 0x05, 0x2E]"
    by (simp add: s5 c5)
  note sp = tp [THEN conjunct1, rule_format, OF dp]
  note sp1 = sp [THEN conjunct1]
  note sp2 = sp [THEN conjunct2, THEN mp, OF rp, THEN conjunct2]
  note sf = tf [THEN conjunct2, THEN conjunct2, THEN conjunct2, THEN conjunct1, rule_format,
                OF conjI [OF df conjI [OF rf wf]], THEN conjunct1]
  have ff: "files (fs (snd (save_object_python demo_lib (keen_user (u ''five.pkl'')) failing_disk_state)))
        (u ''five.pkl'') = Some (take 2 [0x80, 0x05, 0x4B, 0x05, 0x2E])"
    by (simp add: sf c5)
  show ?thesis
    by (intro conjI) (fact d5 r5 w5 f5 dp rp sp1 sp2 wf ff)+
qed

text \<open>
  C4. On the portable-binary save path the type-directed conversion rules are tried in
  this fixed order, the first matching rule determining the bytes written: (1) raw byte
  sequences unchanged, (2) text strings UTF-8 encoded, the save aborted on encoding
  failure, (3) numbers as decimal text, (4) mappings and ordered sequences as JSON text,
  falling back to native serialization when structuring fails, (5) anything else by
  native serialization, the save aborted and reported if that fails too. Structuring
  fails when \<open>json.dumps\<close> raises the \<open>TypeError\<close> or \<open>ValueError\<close> of a value it cannot
  represent, which is what the handler names; any other exception aborts the save. The
  text of a number is what \<open>str\<close> gives. An aborted conversion writes nothing, a
  successful one writes exactly its bytes.
\<close>

theorem convert_to_bytes_chain:
  "convert_to_bytes L h (PyBytes b) = Inr (b, u ''raw bytes'')
   \<and> (\<forall>d. utf8_encode L s = Inr d \<longrightarrow>
         convert_to_bytes L h (PyStr s) = Inr (d, u ''UTF-8 encoded text''))
   \<and> (\<forall>e. utf8_encode L s = Inl e \<longrightarrow> (\<exists>dlg. convert_to_bytes L h (PyStr s) = Inl dlg))
   \<and> (\<forall>t d. is_number n \<and> py_str L h n = Inr t \<and> utf8_encode L t = Inr d \<longrightarrow>
         convert_to_bytes L h n = Inr (d, u ''number as UTF-8 text''))
   \<and> (\<forall>t d. (is_dict h c \<or> is_list_or_tuple h c) \<and> json_dumps L h c 2 = Inr t
            \<and> utf8_encode L t = Inr d \<longrightarrow>
         convert_to_bytes L h c = Inr (d, u ''JSON encoded''))
   \<and> (\<forall>e d. (is_dict h c \<or> is_list_or_tuple h c) \<and> json_dumps L h c 2 = Inl e
            \<and> (exn_isa e TypeError \<or> exn_isa e ValueError)
            \<and> pickle_dumps L h c None = Inr d \<longrightarrow>
         convert_to_bytes L h c = Inr (d, u ''pickle (JSON failed)''))
   \<and> (\<forall>e pe. (is_dict h c \<or> is_list_or_tuple h c) \<and> json_dumps L h c 2 = Inl e
            \<and> (exn_isa e TypeError \<or> exn_isa e ValueError)
            \<and> pickle_dumps L h c None = Inl pe \<longrightarrow>
         convert_to_bytes L h c = Inl (Dialog showerror (u ''Conversion Failed'') [Exc e, Exc pe]))
   \<and> (\<forall>e. (is_dict h c \<or> is_list_or_tuple h c) \<and> json_dumps L h c 2 = Inl e
            \<and> \<not> exn_isa e TypeError \<and> \<not> exn_isa e ValueError \<longrightarrow>
         convert_to_bytes L h c = Inl (save_binary_handler e))
   \<and> (\<forall>d. (\<forall>x. v \<noteq> PyBytes x) \<and> (\<forall>x. v \<noteq> PyStr x) \<and> \<not> is_number v
            \<and> \<not> is_dict h v \<and> \<not> is_list_or_tuple h v \<and> pickle_dumps L h v None = Inr d \<longrightarrow>
         convert_to_bytes L h v = Inr (d, u ''pickle''))
   \<and> (\<forall>e. (\<forall>x. v \<noteq> PyBytes x) \<and> (\<forall>x. v \<noteq> PyStr x) \<and> \<not> is_number v
            \<and> \<not> is_dict h v \<and> \<not> is_list_or_tuple h v \<and> pickle_dumps L h v None = Inl e \<longrightarrow>
         convert_to_bytes L h v
           = Inl (Dialog showerror (u ''Cannot Convert'') [Txt (type_name h v), Exc e]))
   \<and> (truthy (heap st) (current_object st) \<and> chosen_file U \<noteq> [] \<longrightarrow>
         (\<forall>dlg. convert_to_bytes L (heap st) (current_object st) = Inl dlg \<longrightarrow>
            save_object_binary L U st = ([dlg], st))
         \<and> (\<forall>d m. convert_to_bytes L (heap st) (current_object st) = Inr (d, m)
               \<and> writable (fs st) (chosen_file U) \<longrightarrow>
            snd (save_object_binary L U st)
              = st\<lparr>fs := (fs st)\<lparr>files := (files (fs st))(chosen_file U \<mapsto> d)\<rparr>\<rparr>))"
proof -
  have r1: "convert_to_bytes L h (PyBytes b) = Inr (b, u ''raw bytes'')"
    by (simp add: convert_to_bytes_def)
  have r2: "\<forall>d. utf8_encode L s = Inr d \<longrightarrow>
         convert_to_bytes L h (PyStr s) = Inr (d, u ''UTF-8 encoded text'')"
    and r2f: "\<forall>e. utf8_encode L s = Inl e \<longrightarrow> (\<exists>dlg. convert_to_bytes L h (PyStr s) = Inl dlg)"
    by (simp_all add: convert_to_bytes_def)
  have r3: "\<forall>t d. is_number n \<and> py_str L h n = Inr t \<and> utf8_encode L t = Inr d \<longrightarrow>
         convert_to_bytes L h n = Inr (d, u ''number as UTF-8 text'')"
    by (cases n) (simp_all add: convert_to_bytes_def)
  have nn: "\<not> is_number c" "\<forall>x. c \<noteq> PyBytes x" "\<forall>x. c \<noteq> PyStr x"
    if "is_dict h c \<or> is_list_or_tuple h c"
    using that by (cases c; simp)+
  have r4: "\<forall>t d. (is_dict h c \<or> is_list_or_tuple h c) \<and> json_dumps L h c 2 = Inr t
            \<and> utf8_encode L t = Inr d \<longrightarrow>
         convert_to_bytes L h c = Inr (d, u ''JSON encoded'')"
    using nn by (cases c) (auto simp: convert_to_bytes_def)
  have r4p: "\<forall>e d. (is_dict h c \<or> is_list_or_tuple h c) \<and> json_dumps L h c 2 = Inl e
            \<and> (exn_isa e TypeError \<or> exn_isa e ValueError)
            \<and> pickle_dumps L h c None = Inr d \<longrightarrow>
         convert_to_bytes L h c = Inr (d, u ''pickle (JSON failed)'')"
    using nn by (cases c) (auto simp: convert_to_bytes_def)
  have r4f: "\<forall>e pe. (is_dict h c \<or> is_list_or_tuple h c) \<and> json_dumps L h c 2 = Inl e
            \<and> (exn_isa e TypeError \<or> exn_isa e ValueError)
            \<and> pickle_dumps L h c None = Inl pe \<longrightarrow>
         convert_to_bytes L h c = Inl (Dialog showerror (u ''Conversion Failed'') [Exc e, Exc pe])"
    using nn by (cases c) (auto simp: convert_to_bytes_def)
  have r4o: "\<forall>e. (is_dict h c \<or> is_list_or_tuple h c) \<and> json_dumps L h c 2 = Inl e
            \<and> \<not> exn_isa e TypeError \<and> \<not> exn_isa e ValueError \<longrightarrow>
         convert_to_bytes L h c = Inl (save_binary_handler e)"
    using nn by (cases c) (auto simp: convert_to_bytes_def)
  have r5: "\<forall>d. (\<forall>x. v \<noteq> PyBytes x) \<and> (\<forall>x. v \<noteq> PyStr x) \<and> \<not> is_number v
            \<and> \<not> is_dict h v \<and> \<not> is_list_or_tuple h v \<and> pickle_dumps L h v None = Inr d \<longrightarrow>
         convert_to_bytes L h v = Inr (d, u ''pickle'')"
    by (cases v) (auto simp: convert_to_bytes_def)
  have r5f: "\<forall>e. (\<forall>x. v \<noteq> PyBytes x) \<and> (\<forall>x. v \<noteq> PyStr x) \<and> \<not> is_number v
            \<and> \<not> is_dict h v \<and> \<not> is_list_or_tuple h v \<and> pickle_dumps L h v None = Inl e \<longrightarrow>
         convert_to_bytes L h v
           = Inl (Dialog showerror (u ''Cannot Convert'') [Txt (type_name h v), Exc e])"
    by (cases v) (auto simp: convert_to_bytes_def)
  have sv: "truthy (heap st) (current_object st) \<and> chosen_file U \<noteq> [] \<longrightarrow>
         (\<forall>dlg. convert_to_bytes L (heap st) (current_object st) = Inl dlg \<longrightarrow>
            save_object_binary L U st = ([dlg], st))
         \<and> (\<forall>d m. convert_to_bytes L (heap st) (current_object st) = Inr (d, m)
               \<and> writable (fs st) (chosen_file U) \<longrightarrow>
            snd (save_object_binary L U st)
              = st\<lparr>fs := (fs st)\<lparr>files := (files (fs st))(chosen_file U \<mapsto> d)\<rparr>\<rparr>)"
    by (auto simp: save_object_binary_def Let_def write_file_def writable_def)
  from r1 r2 r2f r3 r4 r4p r4f r4o r5 r5f sv show ?thesis by blast
qed

theorem convert_to_bytes_chain_witness:
  "utf8_encode demo_lib (u ''hi'') = Inr [0x68, 0x69]
   \<and> convert_to_bytes demo_lib list_heap (PyStr (u ''hi'')) = Inr ([0x68, 0x69], u ''UTF-8 encoded text'')
   \<and> is_number (PyInt 42) \<and> py_str demo_lib list_heap (PyInt 42) = Inr (u ''42'')
   \<and> convert_to_bytes demo_lib list_heap (PyInt 42) = Inr ([0x34, 0x32], u ''number as UTF-8 text'')
   \<and> is_list_or_tuple list_heap (PyRef 1)
   \<and> json_dumps demo_lib list_heap (PyRef 1) 2 = Inr [91, 10, 32, 32, 49, 44, 10, 32, 32, 50, 10, 93]
   \<and> convert_to_bytes demo_lib list_heap (PyRef 1)
       = Inr ([0x5B, 0x0A, 0x20, 0x20, 0x31, 0x2C, 0x0A, 0x20, 0x20, 0x32, 0x0A, 0x5D], u ''JSON encoded'')
   \<and> json_dumps demo_lib list_heap (PyRef 0) 2 = Inl TypeError
   \<and> convert_to_bytes demo_lib list_heap (PyRef 0)
       = Inr ([0x80, 0x04, 0x95, 0x08, 0, 0, 0, 0, 0, 0, 0, 0x5D, 0x94, 0x43, 0x01, 0x78, 0x94,
               0x61, 0x2E], u ''pickle (JSON failed)'')
   \<and> pickle_dumps demo_lib panel_heap (PyRef 0) None = Inl TypeError
   \<and> convert_to_bytes demo_lib panel_heap (PyRef 0)
       = Inl (Dialog showerror (u ''Cannot Convert'') [Txt (u ''Panel''), Exc TypeError])
   \<and> files (fs (snd (save_object_binary demo_lib (keen_user (u ''n.bin'')) number_state))) (u ''n.bin'')
       = Some [0x34, 0x32]"
proof -
  note t = convert_to_bytes_chain [where L = demo_lib and h = list_heap and s = "u ''hi''"
             and n = "PyInt 42" and c = "PyRef 1" and v = "PyRef 1"
             and U = "keen_user (u ''n.bin'')" and st = number_state]
  note t0 = convert_to_bytes_chain [where L = demo_lib and h = list_heap and s = "u ''hi''"
             and n = "PyInt 42" and c = "PyRef 0" and v = "PyRef 1"
             and U = "keen_user (u ''n.bin'')" and st = number_state]
  note tp = convert_to_bytes_chain [where L = demo_lib and h = panel_heap and s = "u ''hi''"
             and n = "PyInt 42" and c = "PyRef 1" and v = "PyRef 0"
             and U = "keen_user (u ''n.bin'')" and st = number_state]
  have e1: "utf8_encode demo_lib (u ''hi'') = Inr [0x68, 0x69]"
    by (simp add: demo_lib_sel u_def)
  have n1: "is_number (PyInt 42)" by simp
  have n2: "py_str demo_lib list_heap (PyInt 42) = Inr (u ''42'')"
    by (simp add: demo_lib_sel int_str_def digits.simps u_def)
  have n3: "utf8_encode demo_lib (u ''42'') = Inr [0x34, 0x32]"
    by (simp add: demo_lib_sel u_def)
  have l1: "is_list_or_tuple list_heap (PyRef 1)" "is_list_or_tuple list_heap (PyRef 0)"
    by (simp_all add: list_heap_def)
  have j1: "json_dumps demo_lib list_heap (PyRef 1) 2
              = Inr [91, 10, 32, 32, 49, 44, 10, 32, 32, 50, 10, 93]"
    by (simp add: demo_lib_sel demo_json_dumps_def list_heap_def json_array_def int_str_def
          digits.simps numeral_2_eq_2)
  have j2: "utf8_encode demo_lib [91, 10, 32, 32, 49, 44, 10, 32, 32, 50, 10, 93]
              = Inr [0x5B, 0x0A, 0x20, 0x20, 0x31, 0x2C, 0x0A, 0x20, 0x20, 0x32, 0x0A, 0x5D]"
    by (simp add: demo_lib_sel)
  have j0: "json_dumps demo_lib list_heap (PyRef 0) 2 = Inl TypeError"
    by (simp add: demo_lib_sel demo_json_dumps_def list_heap_def json_array_def)
  have p0: "pickle_dumps demo_lib list_heap (PyRef 0) None
              = Inr [0x80, 0x04, 0x95, 0x08, 0, 0, 0, 0, 0, 0, 0, 0x5D, 0x94, 0x43, 0x01, 0x78,
                     0x94, 0x61, 0x2E]"
    by (simp add: demo_lib_sel demo_pickle_dumps_def list_heap_def)
  have isa: "exn_isa TypeError TypeError" by (simp add: exn_isa_def)
  have pp: "pickle_dumps demo_lib panel_heap (PyRef 0) None = Inl TypeError"
    by (simp add: demo_lib_sel demo_pickle_dumps_def panel_heap_def)
  have other: "(\<forall>x. PyRef 0 \<noteq> PyBytes x) \<and> (\<forall>x. PyRef 0 \<noteq> PyStr x) \<and> \<not> is_number (PyRef 0)
       \<and> \<not> is_dict panel_heap (PyRef 0) \<and> \<not> is_list_or_tuple panel_heap (PyRef 0)"
    by (simp add: panel_heap_def)
  have ty: "type_name panel_heap (PyRef 0) = u ''Panel''"
    by (simp add: panel_heap_def)
  have s1: "truthy (heap number_state) (current_object number_state)
       \<and> chosen_file (keen_user (u ''n.bin'')) \<noteq> []"
    by (simp add: number_state_def browser_on_def keen_user_def u_def)
  have s2: "writable (fs number_state) (chosen_file (keen_user (u ''n.bin'')))"
    by (simp add: number_state_def browser_on_def empty_disk_def writable_def)
  have s3: "chosen_file (keen_user (u ''n.bin'')) = u ''n.bin''"
    by (simp add: keen_user_def)
  have s4: "heap number_state = empty_heap" "current_object number_state = PyInt 42"
    by (simp_all add: number_state_def browser_on_def)
  note c2 = t [THEN conjunct2, THEN conjunct1, rule_format, OF e1]
  note c3 = t [THEN conjunct2, THEN conjunct2, THEN conjunct2, THEN conjunct1, rule_format, OF conjI [OF n1 conjI [OF n2 n3]]]
  note c4 = t [THEN conjunct2, THEN conjunct2, THEN conjunct2, THEN conjunct2, THEN conjunct1, rule_format, OF conjI [OF disjI2 [OF l1(1)] conjI [OF j1 j2]]]
  note c4p = t0 [THEN conjunct2, THEN conjunct2, THEN conjunct2, THEN conjunct2, THEN conjunct2, THEN conjunct1, rule_format,
                 OF conjI [OF disjI2 [OF l1(2)] conjI [OF j0 conjI [OF disjI1 [OF isa] p0]]]]
  have pre5: "(\<forall>x. PyRef 0 \<noteq> PyBytes x) \<and> (\<forall>x. PyRef 0 \<noteq> PyStr x) \<and> \<not> is_number (PyRef 0)
       \<and> \<not> is_dict panel_heap (PyRef 0) \<and> \<not> is_list_or_tuple panel_heap (PyRef 0)
       \<and> pickle_dumps demo_lib panel_heap (PyRef 0) None = Inl TypeError"
    using other pp by simp
  have c5: "convert_to_bytes demo_lib panel_heap (PyRef 0)
       = Inl (Dialog showerror (u ''Cannot Convert'') [Txt (u ''Panel''), Exc TypeError])"
    using tp [THEN conjunct2, THEN conjunct2, THEN conjunct2, THEN conjunct2, THEN conjunct2, THEN conjunct2, THEN conjunct2, THEN conjunct2, THEN conjunct2, THEN conjunct1, rule_format, OF pre5] unfolding ty .
  have cn: "convert_to_bytes demo_lib (heap number_state) (current_object number_state)
       = Inr ([0x34, 0x32], u ''number as UTF-8 text'')"
    by (simp add: s4 convert_to_bytes_def demo_lib_sel int_str_def digits.simps)
  note written = t [THEN conjunct2, THEN conjunct2, THEN conjunct2, THEN conjunct2, THEN conjunct2, THEN conjunct2, THEN conjunct2, THEN conjunct2, THEN conjunct2, THEN conjunct2, THEN mp, OF s1, THEN conjunct2, rule_format, OF conjI [OF cn s2]]
  have sv: "files (fs (snd (save_object_binary demo_lib (keen_user (u ''n.bin'')) number_state)))
       (u ''n.bin'') = Some [0x34, 0x32]"
    by (simp add: written s3)
  show ?thesis
    by (intro conjI) (fact e1 c2 n1 n2 c3 l1(1) j1 c4 j0 c4p pp c5 sv)+
qed

section \<open>Properties of the large-file gate\<close>

lemma large_titles_distinct:
  "u ''Duplicate Name'' \<noteq> u ''Large File''" "u ''Name Already Exists'' \<noteq> u ''Large File Warning''"
  by (simp_all add: u_def)

lemma load_python_handler_no_question: "load_python_handler e n \<noteq> Dialog askyesno t details"
  by (simp add: load_python_handler_def)

lemma load_object_python_small_file:
  "files (fs st) (chosen_file U) = Some data \<Longrightarrow> length data \<le> 100 * 1024 * 1024 \<Longrightarrow>
     list_all (\<lambda>d. d \<noteq> Dialog askyesno (u ''Large File Warning'') [Num (length data)])
       (fst (load_object_python L U st))"
  by (simp add: load_object_python_def Let_def large_file_limit_def
        load_python_handler_no_question large_titles_distinct
        split: sum.split option.split prod.split)

lemma load_object_binary_small_file:
  "files (fs st) (chosen_file U) = Some data \<Longrightarrow> length data \<le> 100 * 1024 * 1024 \<Longrightarrow>
     list_all (\<lambda>d. d \<noteq> Dialog askyesno (u ''Large File'') [Num (length data)])
       (fst (load_object_binary L U st))"
  by (simp add: load_object_binary_def Let_def large_file_limit_def binary_loaded_info_def
        large_titles_distinct split: sum.split option.split prod.split)

text \<open>
  C8. Both load paths compare the file size against the threshold configured by the
  setting \<open>advanced.large_file_warning_mb\<close> (default 100 MB) and require explicit
  confirmation before proceeding whenever the size exceeds it. This fails: with the
  setting at 1 MB, a file of 2 MB is loaded with no question asked, by a user who would
  have declined.
\<close>

theorem large_file_setting_ignored:
  "configured_limit (settings two_mb_state) = 1048576
   \<and> files (fs two_mb_state) (u ''big.bin'') = Some (replicate (2 * 1024 * 1024) 0)
   \<and> configured_limit (settings two_mb_state) < length (replicate (2 * 1024 * 1024) (0::byte))
   \<and> \<not> continue_large (user_for (u ''big.bin'') (u ''big''))
   \<and> list_all (\<lambda>d. box_of d = showinfo)
        (fst (load_object_binary demo_lib (user_for (u ''big.bin'') (u ''big'')) two_mb_state))
   \<and> map fst (loaded_objects
        (snd (load_object_binary demo_lib (user_for (u ''big.bin'') (u ''big'')) two_mb_state)))
       = [u ''big'']"
proof -
  have c: "configured_limit (settings two_mb_state) = 1048576"
    by (simp add: configured_limit_def two_mb_state_def one_mb_settings_def lookup_setting_def
          lookup_category_def u_def)
  have f: "files (fs two_mb_state) (u ''big.bin'') = Some (replicate (2 * 1024 * 1024) 0)"
    by (simp add: two_mb_state_def browser_on_def disk_with_def)
  have n: "\<not> continue_large (user_for (u ''big.bin'') (u ''big''))"
    by (simp add: user_for_def)
  have l: "load_object_binary demo_lib (user_for (u ''big.bin'') (u ''big'')) two_mb_state
     = ([binary_loaded_info (u ''big'')
           (interpret_bytes demo_lib empty_heap (replicate (2 * 1024 * 1024) 0))
           (type_name (new_heap (interpret_bytes demo_lib empty_heap (replicate (2 * 1024 * 1024) 0)))
              (loaded_obj (interpret_bytes demo_lib empty_heap (replicate (2 * 1024 * 1024) 0))))
           (2 * 1024 * 1024)],
        two_mb_state\<lparr>loaded_objects :=
            [(u ''big'', loaded_obj (interpret_bytes demo_lib empty_heap (replicate (2 * 1024 * 1024) 0)))],
          heap := new_heap (interpret_bytes demo_lib empty_heap (replicate (2 * 1024 * 1024) 0))\<rparr>)"
    by (simp add: load_object_binary_def Let_def user_for_def two_mb_state_def browser_on_def
          disk_with_def large_file_limit_def entered_name_def u_def)
  show ?thesis
    by (simp add: c f n l binary_loaded_info_def)
qed

text \<open>
  C8, as amended. Both load paths compare the file size against the fixed threshold of
  100 MB (100 * 1024 * 1024 bytes), whatever the settings document holds, and require
  explicit confirmation before proceeding whenever the size exceeds it: the settings have
  no influence on either load; above the threshold a user who declines stops the load with
  the state unchanged; at or below it the question is not asked.
\<close>

theorem large_file_gate:
  "fst (load_object_python L U (st\<lparr>settings := cfg\<rparr>)) = fst (load_object_python L U st)
   \<and> snd (load_object_python L U (st\<lparr>settings := cfg\<rparr>))
       = (snd (load_object_python L U st))\<lparr>settings := cfg\<rparr>
   \<and> fst (load_object_binary L U (st\<lparr>settings := cfg\<rparr>)) = fst (load_object_binary L U st)
   \<and> snd (load_object_binary L U (st\<lparr>settings := cfg\<rparr>))
       = (snd (load_object_binary L U st))\<lparr>settings := cfg\<rparr>
   \<and> (chosen_file U \<noteq> [] \<and> files (fs st) (chosen_file U) = Some data
        \<and> readable (fs st) (chosen_file U) \<and> length data > 100 * 1024 * 1024
        \<and> \<not> continue_large U \<longrightarrow>
       load_object_python L U st
         = ([Dialog askyesno (u ''Large File Warning'') [Num (length data)]], st)
       \<and> load_object_binary L U st
         = ([Dialog askyesno (u ''Large File'') [Num (length data)]], st))
   \<and> (files (fs st) (chosen_file U) = Some data \<and> length data \<le> 100 * 1024 * 1024 \<longrightarrow>
       list_all (\<lambda>d. d \<noteq> Dialog askyesno (u ''Large File Warning'') [Num (length data)])
         (fst (load_object_python L U st))
       \<and> list_all (\<lambda>d. d \<noteq> Dialog askyesno (u ''Large File'') [Num (length data)])
         (fst (load_object_binary L U st)))"
proof -
  have p1: "fst (load_object_python L U (st\<lparr>settings := cfg\<rparr>)) = fst (load_object_python L U st)"
    and p2: "snd (load_object_python L U (st\<lparr>settings := cfg\<rparr>))
       = (snd (load_object_python L U st))\<lparr>settings := cfg\<rparr>"
    by (simp_all add: load_object_python_def Let_def split: option.split sum.split prod.split)
  have b1: "fst (load_object_binary L U (st\<lparr>settings := cfg\<rparr>)) = fst (load_object_binary L U st)"
    and b2: "snd (load_object_binary L U (st\<lparr>settings := cfg\<rparr>))
       = (snd (load_object_binary L U st))\<lparr>settings := cfg\<rparr>"
    by (simp_all add: load_object_binary_def Let_def split: option.split sum.split prod.split)
  have g: "chosen_file U \<noteq> [] \<and> files (fs st) (chosen_file U) = Some data
        \<and> readable (fs st) (chosen_file U) \<and> length data > 100 * 1024 * 1024
        \<and> \<not> continue_large U \<longrightarrow>
       load_object_python L U st
         = ([Dialog askyesno (u ''Large File Warning'') [Num (length data)]], st)
       \<and> load_object_binary L U st
         = ([Dialog askyesno (u ''Large File'') [Num (length data)]], st)"
    by (simp add: load_object_python_def load_object_binary_def Let_def large_file_limit_def)
  have q: "files (fs st) (chosen_file U) = Some data \<and> length data \<le> 100 * 1024 * 1024 \<longrightarrow>
       list_all (\<lambda>d. d \<noteq> Dialog askyesno (u ''Large File Warning'') [Num (length data)])
         (fst (load_object_python L U st))
       \<and> list_all (\<lambda>d. d \<noteq> Dialog askyesno (u ''Large File'') [Num (length data)])
         (fst (load_object_binary L U st))"
    using load_object_python_small_file [of st U data L]
      load_object_binary_small_file [of st U data L]
    by blast
  show ?thesis
    by (intro conjI) (fact p1 p2 b1 b2 g q)+
qed

theorem large_file_gate_witness:
  "chosen_file (user_for (u ''huge.bin'') (u ''huge'')) \<noteq> []
   \<and> files (fs huge_state) (chosen_file (user_for (u ''huge.bin'') (u ''huge'')))
       = Some (replicate (100 * 1024 * 1024 + 1) 0)
   \<and> length (replicate (100 * 1024 * 1024 + 1) (0::byte)) > 100 * 1024 * 1024
   \<and> load_object_binary demo_lib (user_for (u ''huge.bin'') (u ''huge'')) huge_state
       = ([Dialog askyesno (u ''Large File'') [Num (100 * 1024 * 1024 + 1)]], huge_state)
   \<and> load_object_python demo_lib (user_for (u ''huge.bin'') (u ''huge'')) huge_state
       = ([Dialog askyesno (u ''Large File Warning'') [Num (100 * 1024 * 1024 + 1)]], huge_state)"
proof -
  have pre: "chosen_file (user_for (u ''huge.bin'') (u ''huge'')) \<noteq> []
     \<and> files (fs huge_state) (chosen_file (user_for (u ''huge.bin'') (u ''huge'')))
         = Some (replicate (100 * 1024 * 1024 + 1) 0)
     \<and> readable (fs huge_state) (chosen_file (user_for (u ''huge.bin'') (u ''huge'')))
     \<and> length (replicate (100 * 1024 * 1024 + 1) (0::byte)) > 100 * 1024 * 1024
     \<and> \<not> continue_large (user_for (u ''huge.bin'') (u ''huge''))"
    by (simp add: user_for_def huge_state_def browser_on_def disk_with_def u_def)
  note g = large_file_gate [where L = demo_lib and U = "user_for (u ''huge.bin'') (u ''huge'')"
             and st = huge_state and data = "replicate (100 * 1024 * 1024 + 1) 0" and cfg = JNull,
             THEN conjunct2, THEN conjunct2, THEN conjunct2, THEN conjunct2, THEN conjunct1,
             THEN mp, OF pre]
  have len: "length (replicate (100 * 1024 * 1024 + 1) (0::byte)) = 100 * 1024 * 1024 + 1"
    by simp
  from g have "load_object_python demo_lib (user_for (u ''huge.bin'') (u ''huge'')) huge_state
       = ([Dialog askyesno (u ''Large File Warning'') [Num (100 * 1024 * 1024 + 1)]], huge_state)"
    and "load_object_binary demo_lib (user_for (u ''huge.bin'') (u ''huge'')) huge_state
       = ([Dialog askyesno (u ''Large File'') [Num (100 * 1024 * 1024 + 1)]], huge_state)"
    unfolding len by simp_all
  with pre show ?thesis by simp
qed

section \<open>The native save followed by the native load\<close>

text \<open>
  What the repository adds to \<open>pickle\<close> on the way from a saved object to a loaded one:
  the file holds the buffer of \<open>pickle.dumps\<close> unchanged, the load hands that buffer to
  \<open>pickle.load\<close>, and the object stored under the chosen name is the one \<open>pickle.load\<close>
  returns. Whether that object equals the saved one is a property of \<open>pickle\<close> itself.
\<close>

lemma save_then_load_python:
  assumes dumps: "pickle_dumps L (heap st) (current_object st) (Some (highest_protocol L)) = Inr b"
    and reach: "reaches_dumps U st"
    and rw: "writable (fs st) (chosen_file U)" "readable (fs st) (chosen_file U)"
    and same: "chosen_file V = chosen_file U"
    and size: "length b \<le> large_file_limit \<or> continue_large V"
    and name: "entered_name (object_name V) = Some name"
    and fresh: "name \<notin> fst ` set (loaded_objects st) \<or> overwrite V"
    and loads: "pickle_loads L (heap st) b = Inr (v, h')"
  shows "map_of (loaded_objects (snd (load_object_python L V (snd (save_object_python L U st))))) name
           = Some v"
proof -
  have saved: "snd (save_object_python L U st)
                 = st\<lparr>fs := (fs st)\<lparr>files := (files (fs st))(chosen_file U \<mapsto> b)\<rparr>\<rparr>"
    using dumps reach rw(1)
    by (auto simp: save_object_python_def Let_def reaches_dumps_def write_file_def writable_def)
  from reach have "chosen_file U \<noteq> []" by (simp add: reaches_dumps_def)
  then show ?thesis
    using rw(2) same size name fresh loads
    by (auto simp: saved load_object_python_def Let_def update_conv')
qed

end
